theory Spec2Isabelle
  imports Main
begin

section \<open>Python values shared by both projects\<close>

text \<open>
  The repository holds two Django REST projects: \<^verbatim>\<open>job_application_api\<close> (applicants, jobs,
  applications) and \<^verbatim>\<open>sales_analytics_api\<close> (customers, products, orders, analytics).
  Database tables are lists of rows in insertion order, a queryset is the list of rows it
  returns, exceptions are values of \<open>error\<close>, and an HTTP response is a value of \<open>response\<close>.
\<close>

text \<open>
  A Python \<^verbatim>\<open>str\<close> is a sequence of Unicode code points. \<open>lit\<close> writes the string literals
  of the source.
\<close>

type_synonym str = "nat list"

definition lit :: "string \<Rightarrow> str" where
  "lit s = map of_char s"

text \<open>
  What Python and Django decide from tables that are no code of the repository: for one
  character, \<^verbatim>\<open>str.isspace()\<close> and \<^verbatim>\<open>str.isdigit()\<close> (the Unicode
  character database); for a string, \<^verbatim>\<open>str.lower()\<close> (the Unicode case mapping, which
  depends on the neighbours of a character) and the syntax check of Django's
  \<^verbatim>\<open>EmailValidator\<close>. Every definition that depends on them takes them as the parameter
  \<open>L\<close>, and every theorem holds whatever they are.
\<close>

record lib =
  char_isspace :: "nat \<Rightarrow> bool"
  char_isdigit :: "nat \<Rightarrow> bool"
  str_lower :: "str \<Rightarrow> str"
  email_syntax :: "str \<Rightarrow> bool"

text \<open>\<^verbatim>\<open>str.strip()\<close>: leading and trailing whitespace is removed.\<close>

definition strip :: "lib \<Rightarrow> str \<Rightarrow> str" where
  "strip L s = rev (dropWhile (char_isspace L) (rev (dropWhile (char_isspace L) s)))"

text \<open>\<^verbatim>\<open>str.lower()\<close>.\<close>

definition lower :: "lib \<Rightarrow> str \<Rightarrow> str" where
  "lower L s = str_lower L s"

text \<open>\<^verbatim>\<open>str.isdigit()\<close>: every character is a digit and there is at least one character.\<close>

definition isdigit :: "lib \<Rightarrow> str \<Rightarrow> bool" where
  "isdigit L s = (s \<noteq> [] \<and> list_all (char_isdigit L) s)"

text \<open>\<^verbatim>\<open>s.replace(c, '')\<close> for a one-character \<open>c\<close>: every occurrence is removed.\<close>

definition replace_empty :: "char \<Rightarrow> str \<Rightarrow> str" where
  "replace_empty c s = filter (\<lambda>x. x \<noteq> of_char c) s"

text \<open>\<^verbatim>\<open>str(n)\<close> for the integers that the messages interpolate.\<close>

fun str_nat :: "nat \<Rightarrow> string" where
  "str_nat n = (if n < 10 then [''0123456789'' ! n]
                else str_nat (n div 10) @ [''0123456789'' ! (n mod 10)])"

definition str_int :: "int \<Rightarrow> string" where
  "str_int i = (if i < 0 then CHR ''-'' # str_nat (nat (- i)) else str_nat (nat i))"

text \<open>\<^verbatim>\<open>'{:X}'.format(n)\<close>.\<close>

fun hex_nat :: "nat \<Rightarrow> string" where
  "hex_nat n = (if n < 16 then [''0123456789ABCDEF'' ! n]
                else hex_nat (n div 16) @ [''0123456789ABCDEF'' ! (n mod 16)])"

text \<open>\<^verbatim>\<open>serializer.errors\<close>: field name (or \<^verbatim>\<open>non_field_errors\<close>) and message.\<close>

type_synonym errors = "(string \<times> str) list"

text \<open>
  The detail of a \<^verbatim>\<open>ValidationError\<close> of the REST framework: the message it was raised
  with, or the collected \<^verbatim>\<open>serializer.errors\<close> when \<^verbatim>\<open>is_valid\<close> raises it.
  \<open>DjangoValidationError\<close> is the exception of that name in \<^verbatim>\<open>django.core.exceptions\<close>.
\<close>

datatype detail = Message str | Fields errors

datatype error =
    ValidationError detail
  | DjangoValidationError
  | IntegrityError
  | DoesNotExist
  | ValueError
  | FieldError
  | AttributeError

text \<open>
  A response: the status and, for 200 and 201, the serialized object. A 400 carries the
  validation errors it reports, a 500 the exception that no handler caught.
\<close>

datatype 'a response =
    Http200 'a
  | Http201 'a
  | Http204
  | Http400 error
  | Http404
  | Http500 error

text \<open>\<^verbatim>\<open>if value:\<close> on an optional string: \<^verbatim>\<open>None\<close> and \<^verbatim>\<open>''\<close> are falsy.\<close>

definition truthy :: "str option \<Rightarrow> bool" where
  "truthy value = (case value of None \<Rightarrow> False | Some s \<Rightarrow> s \<noteq> [])"

text \<open>Sequencing of statements that may raise.\<close>

definition bind_err :: "error + 'a \<Rightarrow> ('a \<Rightarrow> error + 'b) \<Rightarrow> error + 'b" where
  "bind_err m f = (case m of Inl e \<Rightarrow> Inl e | Inr x \<Rightarrow> f x)"

text \<open>
  \<^verbatim>\<open>Meta.ordering = ['-<key>']\<close> and \<^verbatim>\<open>.order_by('-<key>')\<close>: the rows in descending
  order of the key. The database leaves the order of rows with equal keys open; the model
  keeps them in the order of the table.
\<close>

definition order_by_desc :: "('a \<Rightarrow> int) \<Rightarrow> 'a list \<Rightarrow> 'a list" where
  "order_by_desc key rows = sort_key (\<lambda>r. - key r) rows"

section \<open>Serializer fields of the REST framework\<close>

text \<open>
  A member of a JSON request body, as a serializer field sees it: the key is absent, its
  value is \<^verbatim>\<open>null\<close>, or it carries a value. The bodies are JSON (as in the repository's
  tests) and a text field carries a string.
\<close>

datatype 'a json = Absent | Null | Given 'a

text \<open>
  What \<^verbatim>\<open>field.run_validation\<close> followed by the serializer's \<^verbatim>\<open>validate_<field>\<close> method
  comes to: the field is skipped (\<^verbatim>\<open>SkipField\<close>: no entry in the validated data), it is
  refused with messages, or it yields the validated value.
\<close>

datatype 'a outcome = Skip | Invalid "str list" | Valid 'a

definition required_msg :: str where
  "required_msg = lit ''This field is required.''"

definition null_msg :: str where
  "null_msg = lit ''This field may not be null.''"

definition blank_msg :: str where
  "blank_msg = lit ''This field may not be blank.''"

definition max_length_msg :: "nat \<Rightarrow> str" where
  "max_length_msg n =
     lit (''Ensure this field has no more than '' @ str_nat n @ '' characters.'')"

definition null_characters_msg :: str where
  "null_characters_msg = lit ''Null characters are not allowed.''"

definition surrogate_msg :: "nat \<Rightarrow> str" where
  "surrogate_msg c = lit (''Surrogate characters are not allowed: U+'' @ hex_nat c @ ''.'')"

definition invalid_email_msg :: str where
  "invalid_email_msg = lit ''Enter a valid email address.''"

definition unique_msg :: "string \<Rightarrow> string \<Rightarrow> str" where
  "unique_msg model_name field_label =
     lit (model_name @ '' with this '' @ field_label @ '' already exists.'')"

text \<open>
  The validators every \<^verbatim>\<open>CharField\<close> with a \<^verbatim>\<open>max_length\<close> runs on the trimmed value:
  \<^verbatim>\<open>MaxLengthValidator\<close>, \<^verbatim>\<open>ProhibitNullCharactersValidator\<close> and
  \<^verbatim>\<open>ProhibitSurrogateCharactersValidator\<close>; \<^verbatim>\<open>run_validators\<close> collects the messages of
  all of them.
\<close>

definition char_validators :: "nat \<Rightarrow> str \<Rightarrow> str list" where
  "char_validators max_length value =
     (if length value > max_length then [max_length_msg max_length] else []) @
     (if 0 \<in> set value then [null_characters_msg] else []) @
     (case find (\<lambda>c. 55296 \<le> c \<and> c \<le> 57343) value of
        None \<Rightarrow> []
      | Some c \<Rightarrow> [surrogate_msg c])"

text \<open>The \<^verbatim>\<open>EmailValidator\<close> that an \<^verbatim>\<open>EmailField\<close> adds.\<close>

definition email_validator :: "lib \<Rightarrow> str \<Rightarrow> str list" where
  "email_validator L value = (if email_syntax L value then [] else [invalid_email_msg])"

text \<open>
  \<^verbatim>\<open>CharField.run_validation\<close>, with \<^verbatim>\<open>trim_whitespace\<close> at its default \<^verbatim>\<open>True\<close>:
  \<^item> a string that is empty, or empty once trimmed, is the validated value \<^verbatim>\<open>''\<close> when the
    field allows blank, and refused otherwise; no validator is run;
  \<^item> an absent key is skipped on a partial update and when the field is not required, and
    refused otherwise;
  \<^item> \<^verbatim>\<open>null\<close> is the validated value \<^verbatim>\<open>None\<close> when the field allows null, and refused
    otherwise;
  \<^item> any other string is trimmed (\<^verbatim>\<open>to_internal_value\<close>) and handed to the validators.
\<close>

definition char_field ::
  "lib \<Rightarrow> bool \<Rightarrow> bool \<Rightarrow> bool \<Rightarrow> bool \<Rightarrow> (str \<Rightarrow> str list) \<Rightarrow> str json \<Rightarrow> str option outcome" where
  "char_field L partial required allow_null allow_blank validators data =
     (case data of
        Given s \<Rightarrow>
          if s = [] \<or> strip L s = [] then
            (if \<not> allow_blank then Invalid [blank_msg] else Valid (Some []))
          else
            (let value = strip L s;
                 errors = validators value
             in if errors \<noteq> [] then Invalid errors else Valid (Some value))
      | Absent \<Rightarrow>
          if partial then Skip
          else if required then Invalid [required_msg]
          else Skip
      | Null \<Rightarrow> if \<not> allow_null then Invalid [null_msg] else Valid None)"

text \<open>The entries a field contributes to \<^verbatim>\<open>serializer.errors\<close> and to the validated data.\<close>

definition field_errors :: "string \<Rightarrow> 'a outcome \<Rightarrow> errors" where
  "field_errors name r = (case r of Invalid ms \<Rightarrow> map (\<lambda>m. (name, m)) ms | _ \<Rightarrow> [])"

definition validated :: "'a outcome \<Rightarrow> 'a option" where
  "validated r = (case r of Valid v \<Rightarrow> Some v | _ \<Rightarrow> None)"

section \<open>job_application_api: data model\<close>

text \<open>
  The rows carry the columns that the operations below read or write. Keys are the
  integers the database hands out from a sequence, a timestamp is a point on an integer
  time line; the resume file of an applicant and the creation timestamp of an applicant
  play no part in the operations.
\<close>

record applicant =
  a_id :: int
  a_name :: str
  a_email :: str
  a_phone :: "str option"

record job =
  j_id :: int
  j_title :: str
  j_description :: str
  posted_on :: int

record application =
  app_id :: int
  app_applicant :: int
  app_job :: int
  app_status :: str
  applied_on :: int

record jobs_db =
  applicants :: "applicant list"
  jobs :: "job list"
  applications :: "application list"
  applicant_seq :: int
  application_seq :: int

subsection \<open>applicants/serializers.py\<close>

definition validate_email :: "lib \<Rightarrow> str \<Rightarrow> str" where
  "validate_email L value = lower L value"

definition phone_msg :: str where
  "phone_msg = lit ''Phone number should only contain digits and +, -, (, ) characters.''"

definition validate_phone :: "lib \<Rightarrow> str option \<Rightarrow> error + str option" where
  "validate_phone L value =
     (case value of
        None \<Rightarrow> Inr value
      | Some s \<Rightarrow>
          if s \<noteq> [] then
            (let cleaned = replace_empty (CHR ''+'') (replace_empty (CHR '')'')
                             (replace_empty (CHR ''('') (replace_empty (CHR ''-'')
                               (replace_empty (CHR '' '') s))))
             in if \<not> isdigit L cleaned then Inl (ValidationError (Message phone_msg))
                else Inr value)
          else Inr value)"

text \<open>The body of a write to \<^verbatim>\<open>/api/applicants/\<close>.\<close>

record applicant_payload =
  p_name :: "str json"
  p_email :: "str json"
  p_phone :: "str json"

text \<open>
  The validated data: \<open>None\<close> is a key that is not set, \<open>Some None\<close> the value \<^verbatim>\<open>None\<close>.
\<close>

record applicant_data =
  v_name :: "str option option"
  v_email :: "str option option"
  v_phone :: "str option option"

text \<open>
  The \<^verbatim>\<open>UniqueValidator\<close> that the \<^verbatim>\<open>ModelSerializer\<close> derives from
  \<^verbatim>\<open>email = models.EmailField(unique=True)\<close>: an exact lookup of the trimmed value among
  the rows other than the instance being updated.
\<close>

definition applicant_unique_validator :: "jobs_db \<Rightarrow> applicant option \<Rightarrow> str \<Rightarrow> str list" where
  "applicant_unique_validator db instance value =
     (if list_ex (\<lambda>a. a_email a = value \<and> Some (a_id a) \<noteq> map_option a_id instance)
           (applicants db)
      then [unique_msg ''applicant'' ''email''] else [])"

text \<open>
  The fields that \<^verbatim>\<open>ApplicantSerializer\<close> derives from the model, each followed by the
  \<^verbatim>\<open>validate_<field>\<close> method when the serializer has one: the field is run first, and
  what it yields is handed to the method. \<^verbatim>\<open>name\<close> has \<^verbatim>\<open>max_length=100\<close> and is
  required; \<^verbatim>\<open>email\<close> is an \<^verbatim>\<open>EmailField\<close> with \<^verbatim>\<open>max_length=254\<close>, required and
  unique; \<^verbatim>\<open>phone\<close> has \<^verbatim>\<open>max_length=15\<close> and may be absent, null or blank
  (\<^verbatim>\<open>validate_phone\<close> raises nothing but its \<^verbatim>\<open>ValidationError\<close>).
  \<open>instance\<close> is the row being updated, \<open>None\<close> on create.
\<close>

definition applicant_name_field :: "lib \<Rightarrow> bool \<Rightarrow> str json \<Rightarrow> str option outcome" where
  "applicant_name_field L partial data =
     char_field L partial True False False (char_validators 100) data"

definition applicant_email_field ::
  "lib \<Rightarrow> jobs_db \<Rightarrow> applicant option \<Rightarrow> bool \<Rightarrow> str json \<Rightarrow> str option outcome" where
  "applicant_email_field L db instance partial data =
     (case char_field L partial True False False
             (\<lambda>value. applicant_unique_validator db instance value @
                       char_validators 254 value @ email_validator L value)
             data of
        Valid (Some value) \<Rightarrow> Valid (Some (validate_email L value))
      | r \<Rightarrow> r)"

definition applicant_phone_field :: "lib \<Rightarrow> bool \<Rightarrow> str json \<Rightarrow> str option outcome" where
  "applicant_phone_field L partial data =
     (case char_field L partial False True True (char_validators 15) data of
        Valid value \<Rightarrow>
          (case validate_phone L value of
             Inl (ValidationError (Message m)) \<Rightarrow> Invalid [m]
           | Inl _ \<Rightarrow> Invalid []
           | Inr value \<Rightarrow> Valid value)
      | r \<Rightarrow> r)"

text \<open>
  \<^verbatim>\<open>ApplicantSerializer.is_valid()\<close>: the errors of the fields are collected per field; the
  validated data hold what the fields yielded.
\<close>

definition applicant_is_valid ::
  "lib \<Rightarrow> jobs_db \<Rightarrow> applicant option \<Rightarrow> bool \<Rightarrow> applicant_payload \<Rightarrow> errors + applicant_data" where
  "applicant_is_valid L db instance partial pl =
     (let name = applicant_name_field L partial (p_name pl);
          email = applicant_email_field L db instance partial (p_email pl);
          phone = applicant_phone_field L partial (p_phone pl);
          errs = field_errors ''name'' name @ field_errors ''email'' email @
                 field_errors ''phone'' phone
      in if errs \<noteq> [] then Inl errs
         else Inr \<lparr>v_name = validated name, v_email = validated email,
                   v_phone = validated phone\<rparr>)"

text \<open>
  The unique index of the \<^verbatim>\<open>email\<close> column: the table refuses a second row with the same
  e-mail (\<open>self\<close> is the primary key of the row being written, if it exists already).
\<close>

definition applicant_email_taken :: "jobs_db \<Rightarrow> int option \<Rightarrow> str \<Rightarrow> bool" where
  "applicant_email_taken db self e =
     list_ex (\<lambda>a. a_email a = e \<and> Some (a_id a) \<noteq> self) (applicants db)"

text \<open>
  \<^verbatim>\<open>POST /api/applicants/\<close>: validate, then \<^verbatim>\<open>Applicant.objects.create(**validated_data)\<close>.
  \<^verbatim>\<open>name\<close> and \<^verbatim>\<open>email\<close> are set in the validated data of a create; a \<^verbatim>\<open>phone\<close> that is
  not set is stored as NULL.
\<close>

definition applicant_create ::
  "lib \<Rightarrow> jobs_db \<Rightarrow> applicant_payload \<Rightarrow> applicant response \<times> jobs_db" where
  "applicant_create L db pl =
     (case applicant_is_valid L db None False pl of
        Inl errs \<Rightarrow> (Http400 (ValidationError (Fields errs)), db)
      | Inr v \<Rightarrow>
          (let row = \<lparr>a_id = applicant_seq db,
                      a_name = (case v_name v of Some (Some n) \<Rightarrow> n | _ \<Rightarrow> []),
                      a_email = (case v_email v of Some (Some e) \<Rightarrow> e | _ \<Rightarrow> []),
                      a_phone = (case v_phone v of None \<Rightarrow> None | Some ph \<Rightarrow> ph)\<rparr>
           in if applicant_email_taken db None (a_email row) then (Http500 IntegrityError, db)
              else (Http201 row,
                    db\<lparr>applicants := applicants db @ [row],
                       applicant_seq := applicant_seq db + 1\<rparr>)))"

text \<open>
  \<^verbatim>\<open>PUT\<close> (\<open>partial = False\<close>) and \<^verbatim>\<open>PATCH\<close> (\<open>partial = True\<close>) on
  \<^verbatim>\<open>/api/applicants/{pk}/\<close>: validate, set every validated attribute on the instance, save.
\<close>

definition applicant_update ::
  "lib \<Rightarrow> jobs_db \<Rightarrow> int \<Rightarrow> bool \<Rightarrow> applicant_payload \<Rightarrow> applicant response \<times> jobs_db" where
  "applicant_update L db pk partial pl =
     (case find (\<lambda>a. a_id a = pk) (applicants db) of
        None \<Rightarrow> (Http404, db)
      | Some instance \<Rightarrow>
          (case applicant_is_valid L db (Some instance) partial pl of
             Inl errs \<Rightarrow> (Http400 (ValidationError (Fields errs)), db)
           | Inr v \<Rightarrow>
               (let row = instance\<lparr>
                      a_name := (case v_name v of Some (Some n) \<Rightarrow> n | _ \<Rightarrow> a_name instance),
                      a_email := (case v_email v of Some (Some e) \<Rightarrow> e | _ \<Rightarrow> a_email instance),
                      a_phone := (case v_phone v of None \<Rightarrow> a_phone instance | Some ph \<Rightarrow> ph)\<rparr>
                in if applicant_email_taken db (Some pk) (a_email row)
                   then (Http500 IntegrityError, db)
                   else (Http200 row,
                         db\<lparr>applicants :=
                              map (\<lambda>a. if a_id a = pk then row else a) (applicants db)\<rparr>))))"

subsection \<open>Optional query-string filters\<close>

text \<open>\<^verbatim>\<open>request.query_params\<close>: a key is absent, or carries a (possibly empty) string.\<close>

type_synonym query_params = "string \<rightharpoonup> str"

text \<open>
  The pattern every view uses for an optional filter,
  \<^verbatim>\<open>p = request.query_params.get(key, None)\<close> followed by
  \<^verbatim>\<open>if p: queryset = queryset.filter(<lookup>=p)\<close>.
  \<open>conv\<close> is the conversion the framework applies to the string when the filter is
  added, before it is compared with the column: \<^verbatim>\<open>int\<close> for an integer key (it raises
  \<^verbatim>\<open>ValueError\<close> for a string that is no number), the parser of \<^verbatim>\<open>DateTimeField\<close> for a
  timestamp (it raises Django's \<^verbatim>\<open>ValidationError\<close> for a string that is no date), none for
  a string column. The parsers are no code of the repository: the views take them as
  parameters. \<open>holds v row\<close> is the lookup.
\<close>

definition filter_param ::
  "(str \<Rightarrow> error + 'v) \<Rightarrow> ('v \<Rightarrow> 'r \<Rightarrow> bool) \<Rightarrow> str option \<Rightarrow> 'r list \<Rightarrow> error + 'r list" where
  "filter_param conv holds p queryset =
     (case p of
        None \<Rightarrow> Inr queryset
      | Some s \<Rightarrow>
          if s \<noteq> [] then
            (case conv s of
               Inl e \<Rightarrow> Inl e
             | Inr v \<Rightarrow> Inr (filter (holds v) queryset))
          else Inr queryset)"

subsection \<open>jobs/views.py\<close>

fun startswith :: "str \<Rightarrow> str \<Rightarrow> bool" where
  "startswith _ [] = True"
| "startswith [] (y # ys) = False"
| "startswith (x # xs) (y # ys) = (x = y \<and> startswith xs ys)"

fun contains :: "str \<Rightarrow> str \<Rightarrow> bool" where
  "contains [] needle = (needle = [])"
| "contains (x # xs) needle = (startswith (x # xs) needle \<or> contains xs needle)"

text \<open>
  The lookup \<^verbatim>\<open>title__icontains\<close> on the project's database, SQLite: a \<^verbatim>\<open>LIKE\<close> with the
  term between wildcards, which disregards the case of the ASCII letters only.
\<close>

definition like_fold :: "nat \<Rightarrow> nat" where
  "like_fold c = (if 65 \<le> c \<and> c \<le> 90 then c + 32 else c)"

definition icontains :: "str \<Rightarrow> str \<Rightarrow> bool" where
  "icontains hay needle = contains (map like_fold hay) (map like_fold needle)"

text \<open>
  \<^verbatim>\<open>JobViewSet.get_queryset\<close>; \<^verbatim>\<open>Job.objects.all()\<close> comes in the model's default
  ordering, \<^verbatim>\<open>['-posted_on']\<close>.
\<close>

definition job_get_queryset :: "jobs_db \<Rightarrow> query_params \<Rightarrow> error + job list" where
  "job_get_queryset db qp =
     (let queryset = order_by_desc posted_on (jobs db);
          title = qp ''title''
      in filter_param Inr (\<lambda>v j. icontains (j_title j) v) title queryset)"

subsection \<open>applications/models.py, serializers.py, views.py\<close>

text \<open>\<^verbatim>\<open>Application.objects.filter(applicant=a, job=j).exists()\<close>; a \<^verbatim>\<open>None\<close> matches no row.\<close>

definition application_exists :: "jobs_db \<Rightarrow> int option \<Rightarrow> int option \<Rightarrow> bool" where
  "application_exists db a j =
     list_ex (\<lambda>x. Some (app_applicant x) = a \<and> Some (app_job x) = j) (applications db)"

text \<open>
  \<^verbatim>\<open>Application.objects.create(...)\<close>: the insert is refused by the foreign keys when the
  applicant or the job does not exist, and by \<^verbatim>\<open>UniqueConstraint(fields=['applicant', 'job'])\<close>
  when the pair is already stored. \<open>now\<close> is the clock that \<^verbatim>\<open>auto_now_add\<close> reads.
\<close>

definition application_objects_create ::
  "int \<Rightarrow> jobs_db \<Rightarrow> int \<Rightarrow> int \<Rightarrow> str \<Rightarrow> (error + application) \<times> jobs_db" where
  "application_objects_create now db a j st =
     (if \<not> list_ex (\<lambda>x. a_id x = a) (applicants db) \<or> \<not> list_ex (\<lambda>x. j_id x = j) (jobs db)
      then (Inl IntegrityError, db)
      else if application_exists db (Some a) (Some j) then (Inl IntegrityError, db)
      else (let row = \<lparr>app_id = application_seq db, app_applicant = a, app_job = j,
                        app_status = st, applied_on = now\<rparr>
            in (Inr row, db\<lparr>applications := applications db @ [row],
                            application_seq := application_seq db + 1\<rparr>)))"

text \<open>
  \<^verbatim>\<open>instance.save()\<close> of a stored application: the row with the instance's key is
  rewritten, unless a foreign key or the unique constraint refuses the new values.
\<close>

definition application_save :: "jobs_db \<Rightarrow> application \<Rightarrow> error + jobs_db" where
  "application_save db row =
     (if \<not> list_ex (\<lambda>x. a_id x = app_applicant row) (applicants db) \<or>
         \<not> list_ex (\<lambda>x. j_id x = app_job row) (jobs db)
      then Inl IntegrityError
      else if list_ex (\<lambda>x. app_applicant x = app_applicant row \<and> app_job x = app_job row \<and>
                            app_id x \<noteq> app_id row) (applications db)
      then Inl IntegrityError
      else Inr (db\<lparr>applications :=
                     map (\<lambda>x. if app_id x = app_id row then row else x) (applications db)\<rparr>))"

text \<open>
  The writable members of a request body for \<^verbatim>\<open>ApplicationSerializer\<close>, and its validated
  data; \<open>None\<close> is an absent key. \<^verbatim>\<open>applicant\<close> and \<^verbatim>\<open>job\<close> are primary keys, \<^verbatim>\<open>status\<close> is
  a string.
\<close>

record application_data =
  d_applicant :: "int option"
  d_job :: "int option"
  d_status :: "str option"

definition duplicate_msg :: str where
  "duplicate_msg = lit ''This applicant has already applied for this job. Duplicate applications are not allowed.''"

text \<open>\<^verbatim>\<open>ApplicationSerializer.validate\<close>; \<open>instance\<close> is \<open>None\<close> for a new object.\<close>

definition application_serializer_validate ::
  "jobs_db \<Rightarrow> application option \<Rightarrow> application_data \<Rightarrow> error + application_data" where
  "application_serializer_validate db instance data =
     (if instance = None then
        (let applicant = d_applicant data;
             job = d_job data
         in if application_exists db applicant job
            then Inl (ValidationError (Message duplicate_msg))
            else Inr data)
      else Inr data)"

definition status_choices :: "str list" where
  "status_choices = [lit ''applied'', lit ''shortlisted'', lit ''rejected'']"

definition invalid_pk_msg :: "int \<Rightarrow> str" where
  "invalid_pk_msg pk =
     lit ''Invalid pk '' @ [34] @ lit (str_int pk) @ [34] @ lit '' - object does not exist.''"

definition invalid_choice_msg :: "str \<Rightarrow> str" where
  "invalid_choice_msg input = [34] @ input @ [34] @ lit '' is not a valid choice.''"

text \<open>
  The field checks the \<^verbatim>\<open>ModelSerializer\<close> derives from the model: \<^verbatim>\<open>applicant\<close> and
  \<^verbatim>\<open>job\<close> are primary keys of existing rows and required unless the update is partial,
  \<^verbatim>\<open>status\<close> is one of \<^verbatim>\<open>STATUS_CHOICES\<close> when given.
\<close>

definition application_field_errors :: "jobs_db \<Rightarrow> bool \<Rightarrow> application_data \<Rightarrow> errors" where
  "application_field_errors db partial data =
     (case d_applicant data of
        None \<Rightarrow> if partial then [] else [(''applicant'', required_msg)]
      | Some a \<Rightarrow> if list_ex (\<lambda>x. a_id x = a) (applicants db) then []
                  else [(''applicant'', invalid_pk_msg a)]) @
     (case d_job data of
        None \<Rightarrow> if partial then [] else [(''job'', required_msg)]
      | Some j \<Rightarrow> if list_ex (\<lambda>x. j_id x = j) (jobs db) then []
                  else [(''job'', invalid_pk_msg j)]) @
     (case d_status data of
        None \<Rightarrow> []
      | Some st \<Rightarrow> if st \<in> set status_choices then []
                   else [(''status'', invalid_choice_msg st)])"

definition unique_together_msg :: str where
  "unique_together_msg = lit ''The fields applicant, job must make a unique set.''"

text \<open>
  The \<^verbatim>\<open>UniqueTogetherValidator\<close> that the \<^verbatim>\<open>ModelSerializer\<close> derives from
  \<^verbatim>\<open>UniqueConstraint(fields=['applicant', 'job'])\<close>. On create both fields must be set.
  On update a field that is not set takes the value of the instance, the instance itself
  is excluded from the lookup, and nothing is checked when neither value differs from the
  instance's. The lookup is \<^verbatim>\<open>queryset.filter(applicant=..., job=...).exists()\<close>.
\<close>

definition unique_together_validator ::
  "jobs_db \<Rightarrow> application option \<Rightarrow> application_data \<Rightarrow> error + application_data" where
  "unique_together_validator db instance attrs =
     (case instance of
        None \<Rightarrow>
          (case (d_applicant attrs, d_job attrs) of
             (Some a, Some j) \<Rightarrow>
               if application_exists db (Some a) (Some j)
               then Inl (ValidationError (Message unique_together_msg))
               else Inr attrs
           | (a, j) \<Rightarrow>
               Inl (ValidationError (Fields
                 ((if a = None then [(''applicant'', required_msg)] else []) @
                  (if j = None then [(''job'', required_msg)] else [])))))
      | Some row \<Rightarrow>
          (let a = (case d_applicant attrs of None \<Rightarrow> app_applicant row | Some a \<Rightarrow> a);
               j = (case d_job attrs of None \<Rightarrow> app_job row | Some j \<Rightarrow> j);
               attrs = attrs\<lparr>d_applicant := Some a, d_job := Some j\<rparr>
           in if (a \<noteq> app_applicant row \<or> j \<noteq> app_job row) \<and>
                 list_ex (\<lambda>x. app_applicant x = a \<and> app_job x = j \<and> app_id x \<noteq> app_id row)
                   (applications db)
              then Inl (ValidationError (Message unique_together_msg))
              else Inr attrs))"

text \<open>
  \<^verbatim>\<open>serializer.is_valid(raise_exception=True)\<close> of \<^verbatim>\<open>ApplicationSerializer\<close>: the field
  checks; then, when no field is refused, the serializer's validators (the
  \<^verbatim>\<open>UniqueTogetherValidator\<close>) and after them \<^verbatim>\<open>validate\<close>. A failure is raised as a
  \<^verbatim>\<open>ValidationError\<close> holding the errors; a message raised by a validator or by
  \<^verbatim>\<open>validate\<close> is filed under \<^verbatim>\<open>non_field_errors\<close>.
\<close>

definition application_is_valid ::
  "jobs_db \<Rightarrow> application option \<Rightarrow> bool \<Rightarrow> application_data \<Rightarrow> error + application_data" where
  "application_is_valid db instance partial data =
     (let errs = application_field_errors db partial data
      in if errs \<noteq> [] then Inl (ValidationError (Fields errs))
         else (case bind_err (unique_together_validator db instance data)
                      (application_serializer_validate db instance) of
                 Inl (ValidationError (Message m)) \<Rightarrow>
                   Inl (ValidationError (Fields [(''non_field_errors'', m)]))
               | Inl e \<Rightarrow> Inl e
               | Inr v \<Rightarrow> Inr v))"

text \<open>
  \<^verbatim>\<open>ApplicationViewSet.create\<close>: validation and \<^verbatim>\<open>perform_create\<close> run inside
  \<^verbatim>\<open>try\<close>; every exception becomes a 400 response.
\<close>

definition application_viewset_create ::
  "int \<Rightarrow> jobs_db \<Rightarrow> application_data \<Rightarrow> application response \<times> jobs_db" where
  "application_viewset_create now db data =
     (case application_is_valid db None False data of
        Inl e \<Rightarrow> (Http400 e, db)
      | Inr v \<Rightarrow>
          (case (d_applicant v, d_job v) of
             (Some a, Some j) \<Rightarrow>
               (case application_objects_create now db a j
                       (case d_status v of None \<Rightarrow> lit ''applied'' | Some st \<Rightarrow> st) of
                  (Inl e, db') \<Rightarrow> (Http400 e, db')
                | (Inr row, db') \<Rightarrow> (Http201 row, db'))
           | _ \<Rightarrow> (Http400 IntegrityError, db)))"

text \<open>
  \<^verbatim>\<open>PUT\<close> (\<open>partial = False\<close>) and \<^verbatim>\<open>PATCH\<close> (\<open>partial = True\<close>) on
  \<^verbatim>\<open>/api/applications/{pk}/\<close>, which the viewset inherits: the instance is looked up (the
  request carries no query string), the data are validated against it, every validated
  attribute is set on it, and it is saved. A \<^verbatim>\<open>ValidationError\<close> is answered 400; no
  other exception is caught.
\<close>

definition application_viewset_update ::
  "jobs_db \<Rightarrow> int \<Rightarrow> bool \<Rightarrow> application_data \<Rightarrow> application response \<times> jobs_db" where
  "application_viewset_update db pk partial data =
     (case find (\<lambda>x. app_id x = pk) (applications db) of
        None \<Rightarrow> (Http404, db)
      | Some instance \<Rightarrow>
          (case application_is_valid db (Some instance) partial data of
             Inl e \<Rightarrow> (Http400 e, db)
           | Inr v \<Rightarrow>
               (let row = instance\<lparr>
                      app_applicant := (case d_applicant v of None \<Rightarrow> app_applicant instance
                                        | Some a \<Rightarrow> a),
                      app_job := (case d_job v of None \<Rightarrow> app_job instance | Some j \<Rightarrow> j),
                      app_status := (case d_status v of None \<Rightarrow> app_status instance
                                     | Some st \<Rightarrow> st)\<rparr>
                in case application_save db row of
                     Inl e \<Rightarrow> (Http500 e, db)
                   | Inr db' \<Rightarrow> (Http200 row, db'))))"

text \<open>\<^verbatim>\<open>DELETE /api/applications/{pk}/\<close>, inherited as well.\<close>

definition application_viewset_destroy ::
  "jobs_db \<Rightarrow> int \<Rightarrow> application response \<times> jobs_db" where
  "application_viewset_destroy db pk =
     (case find (\<lambda>x. app_id x = pk) (applications db) of
        None \<Rightarrow> (Http404, db)
      | Some instance \<Rightarrow>
          (Http204, db\<lparr>applications := filter (\<lambda>x. app_id x \<noteq> pk) (applications db)\<rparr>))"

text \<open>
  \<^verbatim>\<open>DELETE /api/applicants/{pk}/\<close> and \<^verbatim>\<open>DELETE /api/jobs/{pk}/\<close>: the foreign keys of
  \<^verbatim>\<open>Application\<close> are declared \<^verbatim>\<open>on_delete=models.CASCADE\<close>, so the applications of the
  deleted row are deleted with it.
\<close>

definition applicant_viewset_destroy :: "jobs_db \<Rightarrow> int \<Rightarrow> applicant response \<times> jobs_db" where
  "applicant_viewset_destroy db pk =
     (case find (\<lambda>a. a_id a = pk) (applicants db) of
        None \<Rightarrow> (Http404, db)
      | Some instance \<Rightarrow>
          (Http204, db\<lparr>applications := filter (\<lambda>x. app_applicant x \<noteq> pk) (applications db),
                        applicants := filter (\<lambda>a. a_id a \<noteq> pk) (applicants db)\<rparr>))"

definition job_viewset_destroy :: "jobs_db \<Rightarrow> int \<Rightarrow> job response \<times> jobs_db" where
  "job_viewset_destroy db pk =
     (case find (\<lambda>j. j_id j = pk) (jobs db) of
        None \<Rightarrow> (Http404, db)
      | Some instance \<Rightarrow>
          (Http204, db\<lparr>applications := filter (\<lambda>x. app_job x \<noteq> pk) (applications db),
                        jobs := filter (\<lambda>j. j_id j \<noteq> pk) (jobs db)\<rparr>))"

text \<open>\<^verbatim>\<open>Applicant.objects.get(id=value)\<close> and \<^verbatim>\<open>Job.objects.get(id=value)\<close>.\<close>

definition applicant_objects_get :: "jobs_db \<Rightarrow> int \<Rightarrow> error + applicant" where
  "applicant_objects_get db pk =
     (case find (\<lambda>a. a_id a = pk) (applicants db) of
        None \<Rightarrow> Inl DoesNotExist | Some a \<Rightarrow> Inr a)"

definition job_objects_get :: "jobs_db \<Rightarrow> int \<Rightarrow> error + job" where
  "job_objects_get db pk =
     (case find (\<lambda>j. j_id j = pk) (jobs db) of
        None \<Rightarrow> Inl DoesNotExist | Some j \<Rightarrow> Inr j)"

text \<open>The data of \<^verbatim>\<open>ApplySerializer\<close>: two integer fields.\<close>

record apply_data =
  apply_applicant_id :: int
  apply_job_id :: int

definition validate_applicant_id :: "jobs_db \<Rightarrow> int \<Rightarrow> error + int" where
  "validate_applicant_id db value =
     (case applicant_objects_get db value of
        Inl _ \<Rightarrow> Inl (ValidationError (Message
                   (lit (''Applicant with ID '' @ str_int value @ '' does not exist.''))))
      | Inr _ \<Rightarrow> Inr value)"

definition validate_job_id :: "jobs_db \<Rightarrow> int \<Rightarrow> error + int" where
  "validate_job_id db value =
     (case job_objects_get db value of
        Inl _ \<Rightarrow> Inl (ValidationError (Message
                   (lit (''Job with ID '' @ str_int value @ '' does not exist.''))))
      | Inr _ \<Rightarrow> Inr value)"

text \<open>\<^verbatim>\<open>ApplySerializer.validate\<close>; the two \<^verbatim>\<open>get\<close> calls raise when the row is missing.\<close>

definition apply_serializer_validate :: "jobs_db \<Rightarrow> apply_data \<Rightarrow> error + apply_data" where
  "apply_serializer_validate db data =
     (case applicant_objects_get db (apply_applicant_id data) of
        Inl e \<Rightarrow> Inl e
      | Inr applicant \<Rightarrow>
          (case job_objects_get db (apply_job_id data) of
             Inl e \<Rightarrow> Inl e
           | Inr job \<Rightarrow>
               if application_exists db (Some (a_id applicant)) (Some (j_id job))
               then Inl (ValidationError (Message
                      (a_name applicant @ lit '' has already applied for '' @ j_title job @
                       lit ''. Duplicate applications are not allowed.'')))
               else Inr data))"

text \<open>\<^verbatim>\<open>ApplySerializer.create\<close>.\<close>

definition apply_serializer_create ::
  "int \<Rightarrow> jobs_db \<Rightarrow> apply_data \<Rightarrow> (error + application) \<times> jobs_db" where
  "apply_serializer_create now db validated_data =
     (case applicant_objects_get db (apply_applicant_id validated_data) of
        Inl e \<Rightarrow> (Inl e, db)
      | Inr applicant \<Rightarrow>
          (case job_objects_get db (apply_job_id validated_data) of
             Inl e \<Rightarrow> (Inl e, db)
           | Inr job \<Rightarrow>
               application_objects_create now db (a_id applicant) (j_id job) (lit ''applied'')))"

text \<open>
  \<^verbatim>\<open>serializer.is_valid()\<close> of \<^verbatim>\<open>ApplySerializer\<close>, a plain \<^verbatim>\<open>Serializer\<close> without derived
  validators: both field methods run and their errors are collected; \<^verbatim>\<open>validate\<close> runs
  only when there is none. \<open>Inl (Inl errs)\<close> is an invalid payload, \<open>Inl (Inr e)\<close> an
  exception other than a \<^verbatim>\<open>ValidationError\<close>.
\<close>

definition apply_is_valid :: "jobs_db \<Rightarrow> apply_data \<Rightarrow> (errors + error) + apply_data" where
  "apply_is_valid db data =
     (let errs =
            (case validate_applicant_id db (apply_applicant_id data) of
               Inl (ValidationError (Message m)) \<Rightarrow> [(''applicant_id'', m)] | _ \<Rightarrow> []) @
            (case validate_job_id db (apply_job_id data) of
               Inl (ValidationError (Message m)) \<Rightarrow> [(''job_id'', m)] | _ \<Rightarrow> [])
      in if errs \<noteq> [] then Inl (Inl errs)
         else (case apply_serializer_validate db data of
                 Inl (ValidationError (Message m)) \<Rightarrow> Inl (Inl [(''non_field_errors'', m)])
               | Inl e \<Rightarrow> Inl (Inr e)
               | Inr v \<Rightarrow> Inr v))"

text \<open>
  \<^verbatim>\<open>apply_for_job\<close>, the view of \<^verbatim>\<open>POST /api/apply/\<close>: 201 with the created application,
  or 400 with \<^verbatim>\<open>serializer.errors\<close>; an exception is not caught here.
\<close>

definition apply_for_job :: "int \<Rightarrow> jobs_db \<Rightarrow> apply_data \<Rightarrow> application response \<times> jobs_db" where
  "apply_for_job now db data =
     (case apply_is_valid db data of
        Inr v \<Rightarrow>
          (case apply_serializer_create now db v of
             (Inr application, db') \<Rightarrow> (Http201 application, db')
           | (Inl e, db') \<Rightarrow> (Http500 e, db'))
      | Inl (Inl errs) \<Rightarrow> (Http400 (ValidationError (Fields errs)), db)
      | Inl (Inr e) \<Rightarrow> (Http500 e, db))"

text \<open>
  \<^verbatim>\<open>ApplicationViewSet.get_queryset\<close>; the class's queryset comes in the model's default
  ordering, \<^verbatim>\<open>['-applied_on']\<close>. \<open>to_int\<close> converts a string compared with an integer key;
  \<^verbatim>\<open>status\<close> is a string column.
\<close>

definition application_get_queryset ::
  "(str \<Rightarrow> error + int) \<Rightarrow> jobs_db \<Rightarrow> query_params \<Rightarrow> error + application list" where
  "application_get_queryset to_int db qp =
     (let queryset = order_by_desc applied_on (applications db);
          status_filter = qp ''status'';
          applicant_id = qp ''applicant'';
          job_id = qp ''job''
      in bind_err (filter_param Inr (\<lambda>v x. app_status x = v) status_filter queryset)
           (\<lambda>queryset.
              bind_err (filter_param to_int (\<lambda>v x. app_applicant x = v) applicant_id queryset)
                (\<lambda>queryset. filter_param to_int (\<lambda>v x. app_job x = v) job_id queryset)))"

section \<open>sales_analytics_api: data model\<close>

text \<open>
  A price is a decimal with two fractional digits, held as its number of hundredths, so
  that sums and products with an integer quantity are exact. A timestamp is a point on an
  integer time line. The conversion of a monetary sum to \<^verbatim>\<open>float\<close> when a report is
  rendered is outside the model.
\<close>

record customer =
  c_id :: int
  c_name :: str
  c_email :: str

record product =
  prod_id :: int
  prod_name :: str
  price :: int

record order =
  o_id :: int
  o_customer :: int
  order_date :: int

record order_item =
  oi_id :: int
  oi_order :: int
  oi_product :: int
  quantity :: int

record sales_db =
  customer_table :: "customer list"
  product_table :: "product list"
  order_table :: "order list"
  order_item_table :: "order_item list"
  customer_seq :: int
  order_seq :: int
  order_item_seq :: int

subsection \<open>customers/serializers.py\<close>

text \<open>The body of a write to \<^verbatim>\<open>/api/customers/\<close>, and the validated data.\<close>

record customer_payload =
  cp_name :: "str json"
  cp_email :: "str json"

record customer_data =
  cv_name :: "str option option"
  cv_email :: "str option option"

text \<open>The \<^verbatim>\<open>UniqueValidator\<close> derived from \<^verbatim>\<open>email = models.EmailField(unique=True)\<close>.\<close>

definition customer_unique_validator :: "sales_db \<Rightarrow> customer option \<Rightarrow> str \<Rightarrow> str list" where
  "customer_unique_validator db instance value =
     (if list_ex (\<lambda>c. c_email c = value \<and> Some (c_id c) \<noteq> map_option c_id instance)
           (customer_table db)
      then [unique_msg ''customer'' ''email''] else [])"

text \<open>
  The writable fields of \<^verbatim>\<open>CustomerSerializer\<close>: \<^verbatim>\<open>name\<close> (\<^verbatim>\<open>max_length=100\<close>) and
  \<^verbatim>\<open>email\<close> (an \<^verbatim>\<open>EmailField\<close>, \<^verbatim>\<open>max_length=254\<close>, unique), both required. The
  serializer declares no \<^verbatim>\<open>validate_<field>\<close> method.
\<close>

definition customer_name_field :: "lib \<Rightarrow> bool \<Rightarrow> str json \<Rightarrow> str option outcome" where
  "customer_name_field L partial data =
     char_field L partial True False False (char_validators 100) data"

definition customer_email_field ::
  "lib \<Rightarrow> sales_db \<Rightarrow> customer option \<Rightarrow> bool \<Rightarrow> str json \<Rightarrow> str option outcome" where
  "customer_email_field L db instance partial data =
     char_field L partial True False False
       (\<lambda>value. customer_unique_validator db instance value @
                 char_validators 254 value @ email_validator L value)
       data"

text \<open>\<^verbatim>\<open>CustomerSerializer.is_valid()\<close>.\<close>

definition customer_is_valid ::
  "lib \<Rightarrow> sales_db \<Rightarrow> customer option \<Rightarrow> bool \<Rightarrow> customer_payload \<Rightarrow> errors + customer_data" where
  "customer_is_valid L db instance partial pl =
     (let name = customer_name_field L partial (cp_name pl);
          email = customer_email_field L db instance partial (cp_email pl);
          errs = field_errors ''name'' name @ field_errors ''email'' email
      in if errs \<noteq> [] then Inl errs
         else Inr \<lparr>cv_name = validated name, cv_email = validated email\<rparr>)"

definition customer_email_taken :: "sales_db \<Rightarrow> int option \<Rightarrow> str \<Rightarrow> bool" where
  "customer_email_taken db self e =
     list_ex (\<lambda>c. c_email c = e \<and> Some (c_id c) \<noteq> self) (customer_table db)"

text \<open>\<^verbatim>\<open>POST /api/customers/\<close>.\<close>

definition customer_create ::
  "lib \<Rightarrow> sales_db \<Rightarrow> customer_payload \<Rightarrow> customer response \<times> sales_db" where
  "customer_create L db pl =
     (case customer_is_valid L db None False pl of
        Inl errs \<Rightarrow> (Http400 (ValidationError (Fields errs)), db)
      | Inr v \<Rightarrow>
          (let row = \<lparr>c_id = customer_seq db,
                      c_name = (case cv_name v of Some (Some n) \<Rightarrow> n | _ \<Rightarrow> []),
                      c_email = (case cv_email v of Some (Some e) \<Rightarrow> e | _ \<Rightarrow> [])\<rparr>
           in if customer_email_taken db None (c_email row) then (Http500 IntegrityError, db)
              else (Http201 row,
                    db\<lparr>customer_table := customer_table db @ [row],
                       customer_seq := customer_seq db + 1\<rparr>)))"

text \<open>\<^verbatim>\<open>PUT\<close> and \<^verbatim>\<open>PATCH\<close> on \<^verbatim>\<open>/api/customers/{pk}/\<close>.\<close>

definition customer_update ::
  "lib \<Rightarrow> sales_db \<Rightarrow> int \<Rightarrow> bool \<Rightarrow> customer_payload \<Rightarrow> customer response \<times> sales_db" where
  "customer_update L db pk partial pl =
     (case find (\<lambda>c. c_id c = pk) (customer_table db) of
        None \<Rightarrow> (Http404, db)
      | Some instance \<Rightarrow>
          (case customer_is_valid L db (Some instance) partial pl of
             Inl errs \<Rightarrow> (Http400 (ValidationError (Fields errs)), db)
           | Inr v \<Rightarrow>
               (let row = instance\<lparr>
                      c_name := (case cv_name v of Some (Some n) \<Rightarrow> n | _ \<Rightarrow> c_name instance),
                      c_email := (case cv_email v of Some (Some e) \<Rightarrow> e | _ \<Rightarrow> c_email instance)\<rparr>
                in if customer_email_taken db (Some pk) (c_email row)
                   then (Http500 IntegrityError, db)
                   else (Http200 row,
                         db\<lparr>customer_table :=
                              map (\<lambda>c. if c_id c = pk then row else c) (customer_table db)\<rparr>))))"

subsection \<open>orders/models.py\<close>

text \<open>\<^verbatim>\<open>order.items.all()\<close>, the reverse side of \<^verbatim>\<open>OrderItem.order\<close>.\<close>

definition items_all :: "sales_db \<Rightarrow> order \<Rightarrow> order_item list" where
  "items_all db order = filter (\<lambda>i. oi_order i = o_id order) (order_item_table db)"

text \<open>
  \<^verbatim>\<open>OrderItem.subtotal\<close>: \<^verbatim>\<open>self.product\<close> fetches the product row, so the price is the
  one the product has when the property is read.
\<close>

definition subtotal :: "sales_db \<Rightarrow> order_item \<Rightarrow> error + int" where
  "subtotal db item =
     (case find (\<lambda>p. prod_id p = oi_product item) (product_table db) of
        None \<Rightarrow> Inl DoesNotExist
      | Some p \<Rightarrow> Inr (quantity item * price p))"

text \<open>Python's \<^verbatim>\<open>sum\<close> over a generator whose elements may raise.\<close>

fun sum_results :: "(error + int) list \<Rightarrow> error + int" where
  "sum_results [] = Inr 0"
| "sum_results (x # xs) =
     (case x of
        Inl e \<Rightarrow> Inl e
      | Inr v \<Rightarrow> (case sum_results xs of Inl e \<Rightarrow> Inl e | Inr t \<Rightarrow> Inr (v + t)))"

text \<open>\<^verbatim>\<open>Order.total_price\<close>.\<close>

definition total_price :: "sales_db \<Rightarrow> order \<Rightarrow> error + int" where
  "total_price db order = sum_results (map (subtotal db) (items_all db order))"

text \<open>
  \<^verbatim>\<open>Order.save\<close>: the row with the instance's primary key is rewritten, or inserted when
  there is none; the check after \<^verbatim>\<open>super().save()\<close> has an empty body.
\<close>

definition order_save :: "sales_db \<Rightarrow> order \<Rightarrow> sales_db" where
  "order_save db instance =
     (if list_ex (\<lambda>r. o_id r = o_id instance) (order_table db)
      then db\<lparr>order_table := map (\<lambda>r. if o_id r = o_id instance then instance else r) (order_table db)\<rparr>
      else db\<lparr>order_table := order_table db @ [instance]\<rparr>)"

subsection \<open>orders/serializers.py\<close>

record item_data =
  it_product :: int
  it_quantity :: int

text \<open>\<^verbatim>\<open>validated_data\<close> of \<^verbatim>\<open>OrderSerializer\<close>; \<open>None\<close> is an absent key.\<close>

record order_data =
  vd_customer :: "int option"
  vd_items :: "item_data list option"

definition validate_quantity :: "int \<Rightarrow> error + int" where
  "validate_quantity value =
     (if value < 1 then Inl (ValidationError (Message (lit ''Quantity must be at least 1.'')))
      else Inr value)"

definition validate_items :: "item_data list \<Rightarrow> error + item_data list" where
  "validate_items value =
     (if value = [] then Inl (ValidationError (Message (lit ''Order must have at least one item.'')))
      else Inr value)"

text \<open>\<^verbatim>\<open>OrderItem.objects.create(order=order, **item_data)\<close>.\<close>

definition order_item_objects_create :: "sales_db \<Rightarrow> order \<Rightarrow> item_data \<Rightarrow> sales_db" where
  "order_item_objects_create db order item =
     db\<lparr>order_item_table := order_item_table db @
           [\<lparr>oi_id = order_item_seq db, oi_order = o_id order,
             oi_product = it_product item, quantity = it_quantity item\<rparr>],
        order_item_seq := order_item_seq db + 1\<rparr>"

text \<open>The loop \<^verbatim>\<open>for item_data in items_data: OrderItem.objects.create(...)\<close>.\<close>

fun create_items :: "sales_db \<Rightarrow> order \<Rightarrow> item_data list \<Rightarrow> sales_db" where
  "create_items db order [] = db"
| "create_items db order (item # items_data) =
     create_items (order_item_objects_create db order item) order items_data"

text \<open>
  \<^verbatim>\<open>OrderSerializer.create\<close>; \<open>now\<close> is the clock that \<^verbatim>\<open>auto_now_add\<close> reads. The customer
  is required on this path, so the validated data hold one.
\<close>

definition order_serializer_create ::
  "int \<Rightarrow> sales_db \<Rightarrow> int \<Rightarrow> item_data list \<Rightarrow> order \<times> sales_db" where
  "order_serializer_create now db customer items_data =
     (let order = \<lparr>o_id = order_seq db, o_customer = customer, order_date = now\<rparr>;
          db = db\<lparr>order_table := order_table db @ [order], order_seq := order_seq db + 1\<rparr>
      in (order, create_items db order items_data))"

text \<open>\<^verbatim>\<open>instance.items.all().delete()\<close>.\<close>

definition items_delete :: "sales_db \<Rightarrow> order \<Rightarrow> sales_db" where
  "items_delete db instance =
     db\<lparr>order_item_table := filter (\<lambda>i. oi_order i \<noteq> o_id instance) (order_item_table db)\<rparr>"

text \<open>
  \<^verbatim>\<open>OrderSerializer.update\<close>. The only writable attribute besides \<^verbatim>\<open>items\<close> is
  \<^verbatim>\<open>customer\<close> (\<^verbatim>\<open>id\<close>, \<^verbatim>\<open>order_date\<close> and \<^verbatim>\<open>total_price\<close> are read-only).
\<close>

definition order_serializer_update ::
  "sales_db \<Rightarrow> order \<Rightarrow> order_data \<Rightarrow> order \<times> sales_db" where
  "order_serializer_update db instance validated_data =
     (let items_data = vd_items validated_data;
          instance = (case vd_customer validated_data of
                        None \<Rightarrow> instance
                      | Some value \<Rightarrow> instance\<lparr>o_customer := value\<rparr>);
          db = order_save db instance;
          db = (case items_data of
                  None \<Rightarrow> db
                | Some items_data \<Rightarrow> create_items (items_delete db instance) instance items_data)
      in (instance, db))"


text \<open>
  The write endpoints of \<^verbatim>\<open>OrderViewSet\<close>. \<^verbatim>\<open>is_valid\<close> checks the fields the serializer
  declares: \<^verbatim>\<open>customer\<close> and \<^verbatim>\<open>items\<close> are required unless the update is partial, every
  referenced row must exist, every item passes \<^verbatim>\<open>validate_quantity\<close>, and the list passes
  \<^verbatim>\<open>validate_items\<close>.
\<close>

definition item_errors :: "sales_db \<Rightarrow> item_data \<Rightarrow> errors" where
  "item_errors db item =
     (if list_ex (\<lambda>p. prod_id p = it_product item) (product_table db) then []
      else [(''product'', invalid_pk_msg (it_product item))]) @
     (case validate_quantity (it_quantity item) of
        Inl (ValidationError (Message m)) \<Rightarrow> [(''quantity'', m)]
      | _ \<Rightarrow> [])"

definition order_is_valid :: "sales_db \<Rightarrow> bool \<Rightarrow> order_data \<Rightarrow> errors + order_data" where
  "order_is_valid db partial data =
     (let e_customer =
            (case vd_customer data of
               None \<Rightarrow> if partial then [] else [(''customer'', required_msg)]
             | Some c \<Rightarrow> if list_ex (\<lambda>x. c_id x = c) (customer_table db) then []
                         else [(''customer'', invalid_pk_msg c)]);
          e_items =
            (case vd_items data of
               None \<Rightarrow> if partial then [] else [(''items'', required_msg)]
             | Some items \<Rightarrow>
                 (let nested = concat (map (item_errors db) items)
                  in if nested \<noteq> [] then nested
                     else (case validate_items items of
                             Inl (ValidationError (Message m)) \<Rightarrow> [(''items'', m)]
                           | _ \<Rightarrow> [])));
          errs = e_customer @ e_items
      in if errs \<noteq> [] then Inl errs else Inr data)"

definition order_viewset_create ::
  "int \<Rightarrow> sales_db \<Rightarrow> order_data \<Rightarrow> order response \<times> sales_db" where
  "order_viewset_create now db data =
     (case order_is_valid db False data of
        Inl errs \<Rightarrow> (Http400 (ValidationError (Fields errs)), db)
      | Inr v \<Rightarrow>
          (case (vd_customer v, vd_items v) of
             (Some customer, Some items_data) \<Rightarrow>
               (case order_serializer_create now db customer items_data of
                  (order, db') \<Rightarrow> (Http201 order, db'))
           | _ \<Rightarrow> (Http500 IntegrityError, db)))"

text \<open>\<^verbatim>\<open>PUT\<close> (\<open>partial = False\<close>) and \<^verbatim>\<open>PATCH\<close> (\<open>partial = True\<close>) on \<^verbatim>\<open>/api/orders/{pk}/\<close>.\<close>

definition order_viewset_update ::
  "sales_db \<Rightarrow> int \<Rightarrow> bool \<Rightarrow> order_data \<Rightarrow> order response \<times> sales_db" where
  "order_viewset_update db pk partial data =
     (case find (\<lambda>r. o_id r = pk) (order_table db) of
        None \<Rightarrow> (Http404, db)
      | Some instance \<Rightarrow>
          (case order_is_valid db partial data of
             Inl errs \<Rightarrow> (Http400 (ValidationError (Fields errs)), db)
           | Inr v \<Rightarrow>
               (case order_serializer_update db instance v of
                  (instance', db') \<Rightarrow> (Http200 instance', db'))))"

subsection \<open>orders/views.py\<close>

text \<open>
  \<^verbatim>\<open>Order.objects.all()\<close>: the rows in the model's default ordering, \<^verbatim>\<open>['-order_date']\<close>.
\<close>

definition order_objects_all :: "sales_db \<Rightarrow> order list" where
  "order_objects_all db = order_by_desc order_date (order_table db)"

text \<open>
  \<^verbatim>\<open>OrderViewSet.get_queryset\<close>. \<open>to_int\<close> converts the \<^verbatim>\<open>customer\<close> string,
  \<open>to_datetime\<close> the \<^verbatim>\<open>from\<close> and \<^verbatim>\<open>to\<close> strings; \<^verbatim>\<open>order_date__gte\<close> and
  \<^verbatim>\<open>order_date__lte\<close> compare the order's timestamp with the converted bound.
\<close>

definition order_get_queryset ::
  "(str \<Rightarrow> error + int) \<Rightarrow> (str \<Rightarrow> error + int) \<Rightarrow> sales_db \<Rightarrow> query_params \<Rightarrow>
     error + order list" where
  "order_get_queryset to_int to_datetime db qp =
     (let queryset = order_objects_all db;
          customer_id = qp ''customer''
      in bind_err (filter_param to_int (\<lambda>v r. o_customer r = v) customer_id queryset)
           (\<lambda>queryset.
              let from_date = qp ''from'';
                  to_date = qp ''to''
              in bind_err (filter_param to_datetime (\<lambda>t r. t \<le> order_date r) from_date queryset)
                   (\<lambda>queryset.
                      filter_param to_datetime (\<lambda>t r. order_date r \<le> t) to_date queryset)))"

subsection \<open>analytics/views.py: the query builder\<close>

text \<open>
  The views build their queries with the ORM; the model gives each query the rows its SQL
  selects. A nullable SQL value is an \<open>option\<close>. \<^verbatim>\<open>Sum\<close> skips the NULLs of its column
  and is NULL when nothing is left; \<^verbatim>\<open>Coalesce(x, d)\<close> replaces NULL by \<open>d\<close>; a product with
  a NULL factor is NULL.
\<close>

fun non_null :: "'a option list \<Rightarrow> 'a list" where
  "non_null [] = []"
| "non_null (None # xs) = non_null xs"
| "non_null (Some v # xs) = v # non_null xs"

definition sql_sum :: "int option list \<Rightarrow> int option" where
  "sql_sum column = (let vs = non_null column in if vs = [] then None else Some (sum_list vs))"

definition coalesce :: "int option \<Rightarrow> int \<Rightarrow> int" where
  "coalesce v d = (case v of None \<Rightarrow> d | Some x \<Rightarrow> x)"

definition sql_mul :: "int option \<Rightarrow> int option \<Rightarrow> int option" where
  "sql_mul a b = (case (a, b) of (Some x, Some y) \<Rightarrow> Some (x * y) | _ \<Rightarrow> None)"

text \<open>
  Every expression of a query has an output field, which decides how the database's value
  is converted. \<^verbatim>\<open>Sum(..., output_field=DecimalField())\<close> is a \<^verbatim>\<open>DecimalField\<close>,
  \<^verbatim>\<open>Sum('quantity')\<close> takes the \<^verbatim>\<open>IntegerField\<close> of its column, and the Python literal
  \<^verbatim>\<open>0\<close> is wrapped as \<^verbatim>\<open>Value(0)\<close>, an \<^verbatim>\<open>IntegerField\<close>. \<^verbatim>\<open>Coalesce\<close> is given no
  \<^verbatim>\<open>output_field\<close> by the views, so the framework (Django 5.2, the version the
  repository's settings name) infers it from the two source expressions, and raises
  \<^verbatim>\<open>FieldError\<close> (\<^emph>\<open>Expression contains mixed types: DecimalField, IntegerField. You must
  set output_field.\<close>) when their field classes differ. The inference runs when the query
  is run, before a row is read and whether or not a row is selected.
\<close>

datatype output_field = DecimalField | IntegerField

definition resolve_output_field :: "output_field \<Rightarrow> output_field \<Rightarrow> error + output_field" where
  "resolve_output_field a b = (if a = b then Inr a else Inl FieldError)"

text \<open>\<^verbatim>\<open>Coalesce(e, d)\<close> of two typed expressions, as the result of an executed query.\<close>

definition coalesce_expr ::
  "output_field \<times> int option \<Rightarrow> output_field \<times> int \<Rightarrow> error + int" where
  "coalesce_expr e d =
     bind_err (resolve_output_field (fst e) (fst d)) (\<lambda>_. Inr (coalesce (snd e) (snd d)))"

text \<open>
  The rows a LEFT OUTER JOIN pairs with one row of the left table: the matching rows of the
  right table, or a single NULL row when none matches.
\<close>

definition left_join :: "'a list \<Rightarrow> 'a option list" where
  "left_join matching = (if matching = [] then [None] else map Some matching)"

text \<open>
  The path \<^verbatim>\<open>items__product\<close> from one order: its items, each joined with its product.
\<close>

definition item_rows :: "sales_db \<Rightarrow> order \<Rightarrow> (order_item option \<times> product option) list" where
  "item_rows db r =
     concat (map (\<lambda>i. case i of
                        None \<Rightarrow> [(None, None)]
                      | Some item \<Rightarrow>
                          map (\<lambda>p. (Some item, p))
                            (left_join (filter (\<lambda>p. prod_id p = oi_product item)
                                          (product_table db))))
                 (left_join (items_all db r)))"

text \<open>The column \<^verbatim>\<open>F('items__quantity') * F('items__product__price')\<close> over those rows.\<close>

definition amount_column :: "sales_db \<Rightarrow> order \<Rightarrow> int option list" where
  "amount_column db r =
     map (\<lambda>(i, p). sql_mul (map_option quantity i) (map_option price p)) (item_rows db r)"

text \<open>
  \<^verbatim>\<open>{'from': from_date, 'to': to_date} if (from_date or to_date) else None\<close>.
\<close>

definition date_range_of ::
  "str option \<Rightarrow> str option \<Rightarrow> (str option \<times> str option) option" where
  "date_range_of from_date to_date =
     (if truthy from_date \<or> truthy to_date then Some (from_date, to_date) else None)"

record 'a report =
  body :: 'a
  date_range :: "(str option \<times> str option) option"

subsection \<open>analytics/views.py: sales_summary\<close>

record summary =
  total_sales :: int
  total_orders :: nat
  total_customers :: nat
  total_products_sold :: int

text \<open>
  The first statements of \<^verbatim>\<open>sales_summary\<close> (lines 47 to 57): the queryset \<^verbatim>\<open>orders\<close>
  after the two optional date filters.
\<close>

definition summary_orders ::
  "(str \<Rightarrow> error + int) \<Rightarrow> sales_db \<Rightarrow> query_params \<Rightarrow> error + order list" where
  "summary_orders to_datetime db qp =
     (let from_date = qp ''from'';
          to_date = qp ''to'';
          orders = order_objects_all db
      in bind_err (filter_param to_datetime (\<lambda>t r. t \<le> order_date r) from_date orders)
           (\<lambda>orders. filter_param to_datetime (\<lambda>t r. order_date r \<le> t) to_date orders))"

text \<open>
  \<^verbatim>\<open>sales_summary\<close>. The first query it runs is the aggregate of \<^verbatim>\<open>total_sales\<close>, a
  \<^verbatim>\<open>Coalesce\<close> of a decimal sum with the literal \<^verbatim>\<open>0\<close>.
\<close>

definition sales_summary ::
  "(str \<Rightarrow> error + int) \<Rightarrow> sales_db \<Rightarrow> query_params \<Rightarrow> error + summary report" where
  "sales_summary to_datetime db qp =
     (let from_date = qp ''from'';
          to_date = qp ''to''
      in bind_err (summary_orders to_datetime db qp)
           (\<lambda>orders.
              bind_err (coalesce_expr
                          (DecimalField, sql_sum (concat (map (amount_column db) orders)))
                          (IntegerField, 0))
                (\<lambda>total_sales.
                   let total_orders = length orders;
                       total_customers = length (remdups (map o_customer orders))
                   in bind_err (coalesce_expr
                                  (IntegerField,
                                   sql_sum (map (\<lambda>i. Some (quantity i))
                                     (filter (\<lambda>i. oi_order i \<in> set (map o_id orders))
                                        (order_item_table db))))
                                  (IntegerField, 0))
                        (\<lambda>total_products_sold.
                           Inr \<lparr>body = \<lparr>total_sales = total_sales,
                                         total_orders = total_orders,
                                         total_customers = total_customers,
                                         total_products_sold = total_products_sold\<rparr>,
                                date_range = date_range_of from_date to_date\<rparr>))))"

subsection \<open>analytics/views.py: top_customers and top_products\<close>

text \<open>
  \<^verbatim>\<open>order_filter\<close> is a dictionary with at most the keys \<^verbatim>\<open>..._order_date__gte\<close> and
  \<^verbatim>\<open>..._order_date__lte\<close>; an entry is added under \<^verbatim>\<open>if from_date:\<close>, resp.
  \<^verbatim>\<open>if to_date:\<close> (lines 117 to 121 and 177 to 181). \<^verbatim>\<open>filter(**order_filter)\<close> converts
  the strings.
\<close>

datatype lookup = Gte | Lte

fun lookup_holds :: "lookup \<times> int \<Rightarrow> order \<Rightarrow> bool" where
  "lookup_holds (Gte, t) r = (t \<le> order_date r)"
| "lookup_holds (Lte, t) r = (order_date r \<le> t)"

definition filter_entry :: "lookup \<Rightarrow> str option \<Rightarrow> (lookup \<times> str) list" where
  "filter_entry k p = (case p of None \<Rightarrow> [] | Some s \<Rightarrow> if s \<noteq> [] then [(k, s)] else [])"

definition build_order_filter :: "query_params \<Rightarrow> (lookup \<times> str) list" where
  "build_order_filter qp =
     (let from_date = qp ''from'';
          to_date = qp ''to''
      in filter_entry Gte from_date @ filter_entry Lte to_date)"

fun prepare :: "(str \<Rightarrow> error + int) \<Rightarrow> (lookup \<times> str) list \<Rightarrow> error + (lookup \<times> int) list" where
  "prepare conv [] = Inr []"
| "prepare conv ((k, s) # kvs) =
     (case conv s of
        Inl e \<Rightarrow> Inl e
      | Inr t \<Rightarrow> (case prepare conv kvs of Inl e \<Rightarrow> Inl e | Inr r \<Rightarrow> Inr ((k, t) # r)))"

text \<open>
  The orders joined with one customer. An empty \<^verbatim>\<open>order_filter\<close> adds no condition, and
  the annotation reaches the orders through a LEFT OUTER JOIN; a condition on
  \<^verbatim>\<open>orders__order_date\<close> makes the join an INNER JOIN restricted by the condition, and the
  annotation uses that same join.
\<close>

definition joined_orders :: "sales_db \<Rightarrow> (lookup \<times> int) list \<Rightarrow> customer \<Rightarrow> order option list" where
  "joined_orders db order_filter c =
     (let own = filter (\<lambda>r. o_customer r = c_id c) (order_table db)
      in if order_filter = [] then left_join own
         else map Some (filter (\<lambda>r. list_all (\<lambda>l. lookup_holds l r) order_filter) own))"

text \<open>
  The column \<^verbatim>\<open>F('orders__items__quantity') * F('orders__items__product__price')\<close> of one
  customer's group.
\<close>

definition spent_column :: "sales_db \<Rightarrow> order option list \<Rightarrow> int option list" where
  "spent_column db joined =
     concat (map (\<lambda>j. case j of None \<Rightarrow> [None] | Some r \<Rightarrow> amount_column db r) joined)"

record customer_entry =
  ce_id :: int
  ce_name :: str
  ce_email :: str
  total_spent :: int

text \<open>
  The rows of
  \<^verbatim>\<open>customers.filter(**order_filter).annotate(total_spent=Coalesce(Sum(...), 0))\<close>: one for
  every customer that the join leaves at least one row for.
\<close>

definition customer_rows ::
  "sales_db \<Rightarrow> (lookup \<times> int) list \<Rightarrow> customer list \<Rightarrow> customer_entry list" where
  "customer_rows db order_filter customers =
     concat (map (\<lambda>c. let joined = joined_orders db order_filter c
                       in if joined = [] then []
                          else [\<lparr>ce_id = c_id c, ce_name = c_name c, ce_email = c_email c,
                                  total_spent = coalesce (sql_sum (spent_column db joined)) 0\<rparr>])
                 customers)"

text \<open>
  Executing that query: the output field of the annotation, a \<^verbatim>\<open>Coalesce\<close> of a decimal sum
  with the literal \<^verbatim>\<open>0\<close>, is resolved before the first row is read.
\<close>

definition annotate_customers ::
  "sales_db \<Rightarrow> (lookup \<times> int) list \<Rightarrow> customer list \<Rightarrow> error + customer_entry list" where
  "annotate_customers db order_filter customers =
     bind_err (resolve_output_field DecimalField IntegerField)
       (\<lambda>_. Inr (customer_rows db order_filter customers))"

text \<open>
  Building the model instances of an annotated queryset: every row becomes a \<^verbatim>\<open>Customer\<close>
  on which the annotation is set with \<^verbatim>\<open>setattr(obj, 'total_spent', value)\<close>. The model
  class defines \<^verbatim>\<open>total_spent\<close> as a property without a setter (customers/models.py), so
  the assignment raises \<^verbatim>\<open>AttributeError\<close> at the first row.
\<close>

definition customer_instances :: "customer_entry list \<Rightarrow> error + customer_entry list" where
  "customer_instances rows = (if rows = [] then Inr [] else Inl AttributeError)"

text \<open>\<^verbatim>\<open>[:5]\<close> after \<^verbatim>\<open>.order_by('-key')\<close>.\<close>

definition order_by_desc_top5 :: "('a \<Rightarrow> int) \<Rightarrow> 'a list \<Rightarrow> 'a list" where
  "order_by_desc_top5 key rows = take 5 (order_by_desc key rows)"

definition top_customers ::
  "(str \<Rightarrow> error + int) \<Rightarrow> sales_db \<Rightarrow> query_params \<Rightarrow> error + customer_entry list report" where
  "top_customers to_datetime db qp =
     (let from_date = qp ''from'';
          to_date = qp ''to'';
          customers = customer_table db;
          order_filter = build_order_filter qp
      in bind_err (prepare to_datetime order_filter)
           (\<lambda>order_filter.
              bind_err (annotate_customers db order_filter customers)
                (\<lambda>rows.
                   bind_err (customer_instances (order_by_desc_top5 total_spent rows))
                     (\<lambda>customers.
                        Inr \<lparr>body = customers, date_range = date_range_of from_date to_date\<rparr>))))"

text \<open>
  The order items joined with one product; with a condition on
  \<^verbatim>\<open>orderitem__order__order_date\<close> the items are joined with their order and restricted by
  the condition.
\<close>

definition joined_items ::
  "sales_db \<Rightarrow> (lookup \<times> int) list \<Rightarrow> product \<Rightarrow> order_item option list" where
  "joined_items db order_filter p =
     (let own = filter (\<lambda>i. oi_product i = prod_id p) (order_item_table db)
      in if order_filter = [] then left_join own
         else concat (map (\<lambda>i. map (\<lambda>r. Some i)
                                 (filter (\<lambda>r. o_id r = oi_order i \<and>
                                               list_all (\<lambda>l. lookup_holds l r) order_filter)
                                    (order_table db)))
                        own))"

record product_entry =
  pe_id :: int
  pe_name :: str
  pe_price :: int
  total_quantity_sold :: int
  total_revenue :: int

text \<open>
  The rows of \<^verbatim>\<open>products.filter(**order_filter).annotate(total_quantity_sold=...,
  total_revenue=...)\<close>.
\<close>

definition product_rows ::
  "sales_db \<Rightarrow> (lookup \<times> int) list \<Rightarrow> product list \<Rightarrow> product_entry list" where
  "product_rows db order_filter products =
     concat (map (\<lambda>p. let joined = joined_items db order_filter p
                       in if joined = [] then []
                          else [\<lparr>pe_id = prod_id p, pe_name = prod_name p, pe_price = price p,
                                  total_quantity_sold =
                                    coalesce (sql_sum (map (map_option quantity) joined)) 0,
                                  total_revenue =
                                    coalesce (sql_sum (map (\<lambda>i. sql_mul (map_option quantity i)
                                                                (Some (price p))) joined)) 0\<rparr>])
                 products)"

text \<open>
  Executing that query: \<^verbatim>\<open>total_quantity_sold\<close> coalesces an integer sum with the literal
  \<^verbatim>\<open>0\<close>, \<^verbatim>\<open>total_revenue\<close> a decimal sum with the literal \<^verbatim>\<open>0\<close>.
\<close>

definition annotate_products ::
  "sales_db \<Rightarrow> (lookup \<times> int) list \<Rightarrow> product list \<Rightarrow> error + product_entry list" where
  "annotate_products db order_filter products =
     bind_err (resolve_output_field IntegerField IntegerField)
       (\<lambda>_. bind_err (resolve_output_field DecimalField IntegerField)
          (\<lambda>_. Inr (product_rows db order_filter products)))"

definition top_products ::
  "(str \<Rightarrow> error + int) \<Rightarrow> sales_db \<Rightarrow> query_params \<Rightarrow> error + product_entry list report" where
  "top_products to_datetime db qp =
     (let from_date = qp ''from'';
          to_date = qp ''to'';
          products = product_table db;
          order_filter = build_order_filter qp
      in bind_err (prepare to_datetime order_filter)
           (\<lambda>order_filter.
              bind_err (annotate_products db order_filter products)
                (\<lambda>rows.
                   let products = order_by_desc_top5 total_quantity_sold rows
                   in Inr \<lparr>body = products, date_range = date_range_of from_date to_date\<rparr>)))"

section \<open>Notions for stating the properties\<close>

text \<open>
  \<^verbatim>\<open>UniqueConstraint(fields=['applicant', 'job'], name='unique_applicant_job')\<close> as a
  property of the table: no two stored applications share their (applicant, job) pair.
\<close>

definition unique_applicant_job :: "jobs_db \<Rightarrow> bool" where
  "unique_applicant_job db =
     distinct (map (\<lambda>x. (app_applicant x, app_job x)) (applications db))"

text \<open>
  The primary key of the application table: no two rows share their key, and the sequence
  is ahead of every key handed out.
\<close>

definition application_keys :: "jobs_db \<Rightarrow> bool" where
  "application_keys db =
     (distinct (map app_id (applications db)) \<and>
      list_all (\<lambda>x. app_id x < application_seq db) (applications db))"

text \<open>The number of stored applications of one pair.\<close>

definition count_applications :: "jobs_db \<Rightarrow> int \<Rightarrow> int \<Rightarrow> nat" where
  "count_applications db a j =
     length (filter (\<lambda>x. app_applicant x = a \<and> app_job x = j) (applications db))"

text \<open>
  The phone rule in the words of the specification, with the non-emptiness that
  \<^verbatim>\<open>isdigit\<close> asks for: what is left of the value after every space, hyphen, parenthesis
  and plus sign is removed is not empty and consists of digits.
\<close>

definition phone_rule :: "lib \<Rightarrow> str \<Rightarrow> bool" where
  "phone_rule L s =
     (filter (\<lambda>c. c \<notin> set (lit '' -()+'')) s \<noteq> [] \<and>
      list_all (char_isdigit L) (filter (\<lambda>c. c \<notin> set (lit '' -()+'')) s))"

text \<open>
  The current price of the product a key refers to, for stating sums over item lists (a key
  that refers to no row has no price; the foreign key rules that out for a stored item).
\<close>

definition price_of :: "sales_db \<Rightarrow> int \<Rightarrow> int" where
  "price_of db pk =
     (case find (\<lambda>p. prod_id p = pk) (product_table db) of None \<Rightarrow> 0 | Some p \<Rightarrow> price p)"

section \<open>Data of the repository's tests\<close>

text \<open>
  The library functions on the strings of the examples, which are ASCII: the whitespace,
  the digits and the lower-case mapping of ASCII, and an e-mail check that asks for one
  \<^verbatim>\<open>@\<close> between two non-empty parts without a space (every address of the examples
  passes it, as it passes \<^verbatim>\<open>EmailValidator\<close>).
\<close>

definition example_lib :: lib where
  "example_lib =
     \<lparr>char_isspace = (\<lambda>c. c \<in> {9, 10, 11, 12, 13, 28, 29, 30, 31, 32}),
      char_isdigit = (\<lambda>c. 48 \<le> c \<and> c \<le> 57),
      str_lower = map (\<lambda>c. if 65 \<le> c \<and> c \<le> 90 then c + 32 else c),
      email_syntax = (\<lambda>s. length (filter (\<lambda>c. c = 64) s) = 1 \<and> hd s \<noteq> 64 \<and> last s \<noteq> 64 \<and>
                           32 \<notin> set s)\<rparr>"

text \<open>Empty databases, and the rows the test suites create.\<close>

definition empty_jobs_db :: jobs_db where
  "empty_jobs_db = \<lparr>applicants = [], jobs = [], applications = [],
                     applicant_seq = 1, application_seq = 1\<rparr>"

definition empty_sales_db :: sales_db where
  "empty_sales_db = \<lparr>customer_table = [], product_table = [], order_table = [],
                      order_item_table = [], customer_seq = 1, order_seq = 1,
                      order_item_seq = 1\<rparr>"

definition jane :: applicant where
  "jane = \<lparr>a_id = 1, a_name = lit ''Jane Smith'', a_email = lit ''jane@example.com'',
           a_phone = None\<rparr>"

definition alice :: customer where
  "alice = \<lparr>c_id = 1, c_name = lit ''Alice Johnson'', c_email = lit ''alice@example.com''\<rparr>"

text \<open>\<^verbatim>\<open>ApplicationAPITest\<close>: Jane Smith has applied for the Django Developer job.\<close>

definition django_job :: job where
  "django_job = \<lparr>j_id = 1, j_title = lit ''Django Developer'',
                 j_description = lit ''Build REST APIs'', posted_on = 0\<rparr>"

definition jane_application :: application where
  "jane_application = \<lparr>app_id = 1, app_applicant = 1, app_job = 1,
                       app_status = lit ''applied'', applied_on = 1\<rparr>"

definition applied_db :: jobs_db where
  "applied_db =
     \<lparr>applicants = [jane], jobs = [django_job], applications = [jane_application],
      applicant_seq = 2, application_seq = 2\<rparr>"

text \<open>\<^verbatim>\<open>OrderModelTest\<close>: one customer, one product priced 50.00, an order of three.\<close>

definition test_order :: order where
  "test_order = \<lparr>o_id = 1, o_customer = 1, order_date = 0\<rparr>"

definition order_model_db :: sales_db where
  "order_model_db =
     \<lparr>customer_table = [\<lparr>c_id = 1, c_name = lit ''Test Customer'',
                          c_email = lit ''test@example.com''\<rparr>],
      product_table = [\<lparr>prod_id = 1, prod_name = lit ''Test Product'', price = 5000\<rparr>],
      order_table = [test_order],
      order_item_table = [\<lparr>oi_id = 1, oi_order = 1, oi_product = 1, quantity = 3\<rparr>],
      customer_seq = 2, order_seq = 2, order_item_seq = 2\<rparr>"

text \<open>
  \<^verbatim>\<open>AnalyticsAPITest\<close>: Alice ordered two laptops and three mice, Bob five mice and two
  keyboards; the first order was placed on day 10, the second on day 200.
\<close>

definition alice_order :: order where
  "alice_order = \<lparr>o_id = 1, o_customer = 1, order_date = 10\<rparr>"

definition bob_order :: order where
  "bob_order = \<lparr>o_id = 2, o_customer = 2, order_date = 200\<rparr>"

definition analytics_db :: sales_db where
  "analytics_db =
     \<lparr>customer_table =
        [\<lparr>c_id = 1, c_name = lit ''Alice Johnson'', c_email = lit ''alice@example.com''\<rparr>,
         \<lparr>c_id = 2, c_name = lit ''Bob Smith'', c_email = lit ''bob@example.com''\<rparr>],
      product_table =
        [\<lparr>prod_id = 1, prod_name = lit ''Laptop'', price = 100000\<rparr>,
         \<lparr>prod_id = 2, prod_name = lit ''Mouse'', price = 2500\<rparr>,
         \<lparr>prod_id = 3, prod_name = lit ''Keyboard'', price = 7500\<rparr>],
      order_table = [alice_order, bob_order],
      order_item_table =
        [\<lparr>oi_id = 1, oi_order = 1, oi_product = 1, quantity = 2\<rparr>,
         \<lparr>oi_id = 2, oi_order = 1, oi_product = 2, quantity = 3\<rparr>,
         \<lparr>oi_id = 3, oi_order = 2, oi_product = 2, quantity = 5\<rparr>,
         \<lparr>oi_id = 4, oi_order = 2, oi_product = 3, quantity = 2\<rparr>],
      customer_seq = 3, order_seq = 3, order_item_seq = 5\<rparr>"

text \<open>
  Conversions for the concrete requests: the day number within 2024 of the dates used, and
  decimal keys; any other string is refused with the exception the framework raises.
\<close>

definition test_datetime :: "str \<Rightarrow> error + int" where
  "test_datetime s =
     (case map_of [(lit ''2024-01-01'', 1), (lit ''2024-01-10'', 10), (lit ''2024-06-30'', 182),
                   (lit ''2024-07-18'', 200), (lit ''2024-12-31'', 366)] s of
        None \<Rightarrow> Inl DjangoValidationError
      | Some t \<Rightarrow> Inr t)"

definition test_int :: "str \<Rightarrow> error + int" where
  "test_int s =
     (case map_of [(lit ''1'', 1), (lit ''2'', 2), (lit ''3'', 3)] s of
        None \<Rightarrow> Inl ValueError
      | Some n \<Rightarrow> Inr n)"

section \<open>Auxiliary lemmas\<close>

lemma lit_eq_iff [simp]: "lit a = lit b \<longleftrightarrow> a = b"
  unfolding lit_def by (simp add: inj_map_eq_map inj_on_def)

lemma lit_Nil_iff [simp]: "lit a = [] \<longleftrightarrow> a = []" "[] = lit a \<longleftrightarrow> a = []"
  unfolding lit_def by auto

lemma find_Some_mem: "find P xs = Some x \<Longrightarrow> x \<in> set xs \<and> P x"
  by (induction xs) (auto split: if_splits)

lemma map_replace_mem:
  "x \<in> set xs \<Longrightarrow> key x = pk \<Longrightarrow> row \<in> set (map (\<lambda>a. if key a = pk then row else a) xs)"
  by (induction xs) auto

lemma create_items_other [simp]:
  "customer_table (create_items db ord ds) = customer_table db"
  "product_table (create_items db ord ds) = product_table db"
  "order_table (create_items db ord ds) = order_table db"
  by (induction ds arbitrary: db) (auto simp: order_item_objects_create_def)

lemma create_items_rows:
  "map (\<lambda>i. (oi_order i, oi_product i, quantity i)) (order_item_table (create_items db ord ds)) =
   map (\<lambda>i. (oi_order i, oi_product i, quantity i)) (order_item_table db) @
   map (\<lambda>d. (o_id ord, it_product d, it_quantity d)) ds"
  by (induction ds arbitrary: db) (auto simp: order_item_objects_create_def)

lemma order_save_other [simp]:
  "customer_table (order_save db inst) = customer_table db"
  "product_table (order_save db inst) = product_table db"
  "order_item_table (order_save db inst) = order_item_table db"
  "order_item_seq (order_save db inst) = order_item_seq db"
  by (auto simp: order_save_def)

lemma subtotal_found:
  "\<exists>p \<in> set (product_table db). prod_id p = oi_product i \<Longrightarrow>
   subtotal db i = Inr (quantity i * price_of db (oi_product i))"
  by (auto simp: subtotal_def price_of_def find_None_iff split: option.splits)

lemma sum_results_Inr:
  "\<forall>x \<in> set xs. f x = Inr (g x) \<Longrightarrow> sum_results (map f xs) = Inr (sum_list (map g xs))"
  by (induction xs) auto

lemma total_price_sum:
  assumes "\<forall>i \<in> set (items_all db ord). \<exists>p \<in> set (product_table db). prod_id p = oi_product i"
  shows "total_price db ord =
           Inr (\<Sum>i\<leftarrow>items_all db ord. quantity i * price_of db (oi_product i))"
  unfolding total_price_def
  by (rule sum_results_Inr) (use assms subtotal_found in blast)

lemma sum_rows:
  "(\<Sum>i\<leftarrow>filter (\<lambda>i. oi_order i = k) xs. quantity i * f (oi_product i)) =
   (\<Sum>(a, b, c)\<leftarrow>filter (\<lambda>(a, b, c). a = k) (map (\<lambda>i. (oi_order i, oi_product i, quantity i)) xs). c * f b)"
  by (induction xs) auto

lemma set_rows:
  "oi_product ` set (filter (\<lambda>i. oi_order i = k) xs) =
   (\<lambda>(a, b, c). b) ` set (filter (\<lambda>(a, b, c). a = k) (map (\<lambda>i. (oi_order i, oi_product i, quantity i)) xs))"
  by (induction xs) auto

lemma rows_deleted:
  "filter (\<lambda>(a, b, c). a = k) (map (\<lambda>i. (oi_order i, oi_product i, quantity i))
      (filter (\<lambda>i. oi_order i \<noteq> k) xs)) = []"
  by (induction xs) auto

lemma rows_new:
  "filter (\<lambda>(a, b, c). a = k) (map (\<lambda>d. (k, it_product d, it_quantity d)) ds) =
   map (\<lambda>d. (k, it_product d, it_quantity d)) ds"
  by (induction ds) auto

lemma replaced_items:
  assumes "vd_items data = Some new"
    and "order_serializer_update db inst data = (inst', db')"
  shows "product_table db' = product_table db"
    and "o_id inst' = o_id inst"
    and "filter (\<lambda>(a, b, c). a = o_id inst)
           (map (\<lambda>i. (oi_order i, oi_product i, quantity i)) (order_item_table db')) =
         map (\<lambda>d. (o_id inst, it_product d, it_quantity d)) new"
  using assms
  by (auto simp: order_serializer_update_def Let_def items_delete_def create_items_rows
        rows_deleted rows_new split: option.splits)

lemma order_is_valid_products:
  "order_is_valid db partial data = Inr v \<Longrightarrow> vd_items data = Some new \<Longrightarrow>
   v = data \<and> (\<forall>d \<in> set new. \<exists>p \<in> set (product_table db). prod_id p = it_product d)"
  by (auto simp: order_is_valid_def Let_def item_errors_def list_ex_iff
           split: if_splits option.splits)

lemma order_save_others:
  "o_id inst = k \<Longrightarrow>
   filter (\<lambda>r. o_id r \<noteq> k) (order_table (order_save db inst)) =
   filter (\<lambda>r. o_id r \<noteq> k) (order_table db)"
proof -
  have "filter (\<lambda>r. o_id r \<noteq> o_id inst) (map (\<lambda>r. if o_id r = o_id inst then inst else r) xs) =
        filter (\<lambda>r. o_id r \<noteq> o_id inst) xs" for xs
    by (induction xs) auto
  then show "o_id inst = k \<Longrightarrow> ?thesis"
    by (auto simp: order_save_def)
qed

lemma update_no_items:
  "vd_items data = None \<Longrightarrow>
   order_serializer_update db instance data =
     (case vd_customer data of None \<Rightarrow> instance | Some c \<Rightarrow> instance\<lparr>o_customer := c\<rparr>,
      order_save db
        (case vd_customer data of None \<Rightarrow> instance | Some c \<Rightarrow> instance\<lparr>o_customer := c\<rparr>))"
  by (simp add: order_serializer_update_def Let_def)

lemma order_is_valid_same: "order_is_valid db partial data = Inr v \<Longrightarrow> v = data"
  by (auto simp: order_is_valid_def Let_def split: if_splits)

lemma view_update_no_items:
  assumes "vd_items data = None"
  shows "snd (order_viewset_update db pk partial data) = db \<or>
         (\<exists>inst. find (\<lambda>r. o_id r = pk) (order_table db) = Some inst \<and>
            snd (order_viewset_update db pk partial data) =
              order_save db (case vd_customer data of None \<Rightarrow> inst
                             | Some c \<Rightarrow> inst\<lparr>o_customer := c\<rparr>))"
  using assms
  by (auto simp: order_viewset_update_def update_no_items
           split: option.splits sum.splits dest!: order_is_valid_same)

lemma patched_customer:
  "order_viewset_update (order_model_db\<lparr>customer_table := customer_table order_model_db @
                           [\<lparr>c_id = 2, c_name = lit ''Bob Smith'', c_email = lit ''bob@example.com''\<rparr>]\<rparr>) 1 True
     \<lparr>vd_customer = Some 2, vd_items = None\<rparr> =
   (Http200 (test_order\<lparr>o_customer := 2\<rparr>),
    order_model_db\<lparr>customer_table := customer_table order_model_db @
                           [\<lparr>c_id = 2, c_name = lit ''Bob Smith'', c_email = lit ''bob@example.com''\<rparr>],
                   order_table := [test_order\<lparr>o_customer := 2\<rparr>]\<rparr>)"
  by (simp add: order_viewset_update_def order_model_db_def test_order_def order_is_valid_def
        order_serializer_update_def order_save_def Let_def)

lemma patched_items:
  "order_viewset_update order_model_db 1 True
     \<lparr>vd_customer = None, vd_items = Some [\<lparr>it_product = 1, it_quantity = 5\<rparr>]\<rparr> =
   (Http200 test_order,
    order_model_db\<lparr>order_item_table := [\<lparr>oi_id = 2, oi_order = 1, oi_product = 1, quantity = 5\<rparr>],
                   order_item_seq := 3\<rparr>)"
  by (simp add: order_viewset_update_def order_model_db_def test_order_def order_is_valid_def
        order_serializer_update_def order_save_def Let_def item_errors_def validate_quantity_def
        validate_items_def items_delete_def order_item_objects_create_def)

lemma application_exists_iff:
  "application_exists db (Some a) (Some j) \<longleftrightarrow>
   (a, j) \<in> set (map (\<lambda>x. (app_applicant x, app_job x)) (applications db))"
  by (auto simp: application_exists_def list_ex_iff)

lemma objects_create_unique:
  "unique_applicant_job db \<Longrightarrow>
   unique_applicant_job (snd (application_objects_create now db a j st))"
  by (auto simp: application_objects_create_def unique_applicant_job_def Let_def
        application_exists_iff)

lemma objects_create_keys:
  "application_keys db \<Longrightarrow> application_keys (snd (application_objects_create now db a j st))"
  by (fastforce simp: application_objects_create_def application_keys_def Let_def list_all_iff)

lemma objects_create_duplicate:
  "application_exists db (Some a) (Some j) \<Longrightarrow>
   application_objects_create now db a j st = (Inl IntegrityError, db)"
  by (simp add: application_objects_create_def)

lemma viewset_create_unique:
  "unique_applicant_job db \<Longrightarrow>
   unique_applicant_job (snd (application_viewset_create now db data))"
  by (auto simp: application_viewset_create_def split: sum.splits option.splits prod.splits)
     (metis objects_create_unique snd_conv)+

lemma viewset_create_keys:
  "application_keys db \<Longrightarrow> application_keys (snd (application_viewset_create now db data))"
  by (auto simp: application_viewset_create_def split: sum.splits option.splits prod.splits)
     (metis objects_create_keys snd_conv)+

lemma apply_unique:
  "unique_applicant_job db \<Longrightarrow> unique_applicant_job (snd (apply_for_job now db ad))"
  by (auto simp: apply_for_job_def apply_serializer_create_def
           split: sum.splits option.splits prod.splits)
     (metis objects_create_unique snd_conv)+

lemma apply_keys:
  "application_keys db \<Longrightarrow> application_keys (snd (apply_for_job now db ad))"
  by (auto simp: apply_for_job_def apply_serializer_create_def
           split: sum.splits option.splits prod.splits)
     (metis objects_create_keys snd_conv)+

lemma replace_keys:
  "map key (map (\<lambda>x. if key x = key row then row else x) xs) = map key xs"
  by (induction xs) auto

lemma replace_absent:
  "key row \<notin> key ` set xs \<Longrightarrow> map (\<lambda>x. if key x = key row then row else x) xs = xs"
  by (induction xs) auto

lemma replace_distinct:
  "distinct (map key xs) \<Longrightarrow> distinct (map pr xs) \<Longrightarrow>
   (\<forall>x \<in> set xs. key x \<noteq> key row \<longrightarrow> pr x \<noteq> pr row) \<Longrightarrow>
   distinct (map pr (map (\<lambda>x. if key x = key row then row else x) xs))"
proof (induction xs)
  case Nil
  then show ?case by simp
next
  case (Cons x xs)
  from Cons.prems have dk: "distinct (map key xs)" and dp: "distinct (map pr xs)"
    and o: "\<forall>y \<in> set xs. key y \<noteq> key row \<longrightarrow> pr y \<noteq> pr row"
    by auto
  note ih = Cons.IH[OF dk dp o]
  show ?case
  proof (cases "key x = key row")
    case True
    with Cons.prems(1) have n: "key row \<notin> key ` set xs" by auto
    then have same: "map (\<lambda>x. if key x = key row then row else x) xs = xs"
      by (rule replace_absent)
    from n o have "pr row \<notin> pr ` set xs" by (auto simp: image_iff) metis
    with True same dp show ?thesis by simp
  next
    case False
    with Cons.prems(3) have nr: "pr x \<noteq> pr row" by simp
    from Cons.prems(2) have nx: "pr x \<notin> pr ` set xs" by simp
    have m: "pr x \<notin> set (map pr (map (\<lambda>x. if key x = key row then row else x) xs))"
      using nr nx by (auto split: if_splits)
    from False have f: "(key x = key row) = False" by simp
    from ih m show ?thesis
      by (simp only: list.map distinct.simps f if_False simp_thms)
  qed
qed

lemma save_unique:
  assumes "unique_applicant_job db" and "application_keys db"
    and "application_save db row = Inr db'"
  shows "unique_applicant_job db' \<and> application_keys db'"
proof -
  from assms(3) have
    n: "\<not> list_ex (\<lambda>x. app_applicant x = app_applicant row \<and> app_job x = app_job row \<and>
                        app_id x \<noteq> app_id row) (applications db)"
    and e: "db' = db\<lparr>applications :=
              map (\<lambda>x. if app_id x = app_id row then row else x) (applications db)\<rparr>"
    by (auto simp: application_save_def split: if_splits)
  from n have o: "\<forall>x \<in> set (applications db). app_id x \<noteq> app_id row \<longrightarrow>
      (app_applicant x, app_job x) \<noteq> (app_applicant row, app_job row)"
    by (auto simp: list_ex_iff)
  from assms(2) have dk: "distinct (map app_id (applications db))"
    by (simp add: application_keys_def)
  from assms(1) have dp: "distinct (map (\<lambda>x. (app_applicant x, app_job x)) (applications db))"
    by (simp add: unique_applicant_job_def)
  have u: "unique_applicant_job db'"
    unfolding unique_applicant_job_def e
    using replace_distinct[OF dk dp o] by simp
  have "map app_id (applications db') = map app_id (applications db)"
    unfolding e using replace_keys[of app_id row "applications db"] by simp
  moreover have "application_seq db' = application_seq db" unfolding e by simp
  moreover have "application_keys db' \<longleftrightarrow>
      distinct (map app_id (applications db')) \<and>
      (\<forall>k \<in> set (map app_id (applications db')). k < application_seq db')"
    by (auto simp: application_keys_def list_all_iff)
  moreover have "application_keys db \<longleftrightarrow>
      distinct (map app_id (applications db)) \<and>
      (\<forall>k \<in> set (map app_id (applications db)). k < application_seq db)"
    by (auto simp: application_keys_def list_all_iff)
  ultimately have "application_keys db'" using assms(2) by simp
  with u show ?thesis by blast
qed

lemma viewset_update_unique:
  assumes "unique_applicant_job db" and "application_keys db"
  shows "unique_applicant_job (snd (application_viewset_update db pk partial data)) \<and>
         application_keys (snd (application_viewset_update db pk partial data))"
  using assms save_unique[OF assms]
  by (auto simp: application_viewset_update_def Let_def split: option.splits sum.splits)

lemma viewset_destroy_unique:
  assumes "unique_applicant_job db" and "application_keys db"
  shows "unique_applicant_job (snd (application_viewset_destroy db pk)) \<and>
         application_keys (snd (application_viewset_destroy db pk))"
  using assms
  by (auto simp: application_viewset_destroy_def unique_applicant_job_def application_keys_def
        distinct_map_filter list_all_iff split: option.splits)

lemma cascade_unique:
  assumes "unique_applicant_job db" and "application_keys db"
  shows "unique_applicant_job (snd (applicant_viewset_destroy db pk)) \<and>
         application_keys (snd (applicant_viewset_destroy db pk)) \<and>
         unique_applicant_job (snd (job_viewset_destroy db pk)) \<and>
         application_keys (snd (job_viewset_destroy db pk))"
  using assms
  by (auto simp: applicant_viewset_destroy_def job_viewset_destroy_def unique_applicant_job_def
        application_keys_def distinct_map_filter list_all_iff split: option.splits)

lemma filter_absent: "k \<notin> set xs \<Longrightarrow> filter (\<lambda>p. p = k) xs = []"
  by (induction xs) auto

lemma distinct_filter_le1: "distinct xs \<Longrightarrow> length (filter (\<lambda>p. p = k) xs) \<le> 1"
  by (induction xs) (auto simp: filter_absent)

lemma count_applications_le1:
  "unique_applicant_job db \<Longrightarrow> count_applications db a j \<le> 1"
proof -
  have "length (filter (\<lambda>x. app_applicant x = a \<and> app_job x = j) xs) =
        length (filter (\<lambda>p. p = (a, j)) (map (\<lambda>x. (app_applicant x, app_job x)) xs))"
    for xs
    by (induction xs) auto
  then have "count_applications db a j =
     length (filter (\<lambda>p. p = (a, j)) (map (\<lambda>x. (app_applicant x, app_job x)) (applications db)))"
    unfolding count_applications_def by blast
  then show "unique_applicant_job db \<Longrightarrow> ?thesis"
    by (simp only: unique_applicant_job_def distinct_filter_le1)
qed

lemma viewset_create_duplicate:
  assumes "application_exists db (Some a) (Some j)"
    and "applicant_objects_get db a = Inr ar" and "job_objects_get db j = Inr jr"
    and "\<forall>s. st = Some s \<longrightarrow> s \<in> set status_choices"
  shows "application_viewset_create now db
           \<lparr>d_applicant = Some a, d_job = Some j, d_status = st\<rparr> =
           (Http400 (ValidationError (Fields [(''non_field_errors'', unique_together_msg)])), db)"
proof -
  from assms(2) have "list_ex (\<lambda>x. a_id x = a) (applicants db)"
    by (auto simp: applicant_objects_get_def list_ex_iff split: option.splits dest!: find_Some_mem)
  moreover from assms(3) have "list_ex (\<lambda>x. j_id x = j) (jobs db)"
    by (auto simp: job_objects_get_def list_ex_iff split: option.splits dest!: find_Some_mem)
  ultimately have "application_field_errors db False
                     \<lparr>d_applicant = Some a, d_job = Some j, d_status = st\<rparr> = []"
    using assms(4) by (auto simp: application_field_errors_def split: option.splits)
  then show ?thesis
    using assms(1)
    by (simp add: application_viewset_create_def application_is_valid_def
          unique_together_validator_def bind_err_def)
qed

lemma apply_duplicate:
  assumes "application_exists db (Some a) (Some j)"
    and "applicant_objects_get db a = Inr ar" and "job_objects_get db j = Inr jr"
  shows "apply_for_job now db \<lparr>apply_applicant_id = a, apply_job_id = j\<rparr> =
           (Http400 (ValidationError (Fields [(''non_field_errors'',
               a_name ar @ lit '' has already applied for '' @ j_title jr @
               lit ''. Duplicate applications are not allowed.'')])), db)"
proof -
  from assms(2) have a: "a_id ar = a"
    by (auto simp: applicant_objects_get_def split: option.splits dest!: find_Some_mem)
  from assms(3) have j: "j_id jr = j"
    by (auto simp: job_objects_get_def split: option.splits dest!: find_Some_mem)
  show ?thesis
    using assms a j
    by (simp add: apply_for_job_def apply_is_valid_def validate_applicant_id_def
          validate_job_id_def apply_serializer_validate_def)
qed

lemma filter_param_empty [simp]:
  "filter_param conv holds (Some []) queryset = Inr queryset"
  "filter_param conv holds None queryset = Inr queryset"
  by (simp_all add: filter_param_def)

lemma filter_param_empty_fun [simp]:
  "filter_param conv holds (Some []) = filter_param conv holds None"
  by (rule ext) (simp add: filter_param_def)

lemma filter_entry_empty [simp]:
  "filter_entry k (Some []) = []" "filter_entry k None = []"
  by (simp_all add: filter_entry_def)

lemma coalesce_mixed [simp]:
  "coalesce_expr (DecimalField, v) (IntegerField, d) = Inl FieldError"
  by (simp add: coalesce_expr_def resolve_output_field_def bind_err_def)

lemma sales_summary_no_report: "sales_summary conv db qp \<noteq> Inr rep"
  by (simp add: sales_summary_def bind_err_def Let_def split: sum.splits)

lemma top_customers_no_report: "top_customers conv db qp \<noteq> Inr rep"
  by (simp add: top_customers_def annotate_customers_def resolve_output_field_def
        bind_err_def Let_def split: sum.splits)

lemma top_products_no_report: "top_products conv db qp \<noteq> Inr rep"
  by (simp add: top_products_def annotate_products_def resolve_output_field_def
        bind_err_def Let_def split: sum.splits)

lemma orders_all_analytics:
  "order_objects_all analytics_db = [bob_order, alice_order]"
  by (simp add: order_objects_all_def order_by_desc_def analytics_db_def alice_order_def
        bob_order_def)

lemmas query_defs =
  items_all_def item_rows_def amount_column_def left_join_def sql_mul_def sql_sum_def
  coalesce_def joined_orders_def spent_column_def customer_rows_def joined_items_def
  product_rows_def order_by_desc_top5_def order_by_desc_def

lemma field_errors_simps [simp]:
  "field_errors name Skip = []"
  "field_errors name (Valid v) = []"
  "field_errors name (Invalid ms) = map (\<lambda>m. (name, m)) ms"
  by (simp_all add: field_errors_def)

lemma validated_simps [simp]:
  "validated Skip = None"
  "validated (Valid v) = Some v"
  "validated (Invalid ms) = None"
  by (simp_all add: validated_def)

lemma field_errors_name: "fst ` set (field_errors name r) \<subseteq> {name}"
  by (cases r) auto

lemma strip_Nil [simp]: "strip L [] = []"
  by (simp add: strip_def)

lemma char_field_Given:
  "char_field L partial required allow_null False validators (Given s) =
     (if strip L s = [] then Invalid [blank_msg]
      else if validators (strip L s) \<noteq> [] then Invalid (validators (strip L s))
      else Valid (Some (strip L s)))"
  by (cases "s = []") (simp_all add: char_field_def Let_def)

lemma char_field_Given_blank:
  "char_field L partial required allow_null True validators (Given s) =
     (if strip L s = [] then Valid (Some [])
      else if validators (strip L s) \<noteq> [] then Invalid (validators (strip L s))
      else Valid (Some (strip L s)))"
  by (cases "s = []") (simp_all add: char_field_def Let_def)

lemma email_field_Given:
  "applicant_email_field L db inst partial (Given e) = Valid v \<Longrightarrow>
   v = Some (lower L (strip L e))"
  by (simp add: applicant_email_field_def char_field_Given validate_email_def
        split: if_splits)

lemma customer_email_field_Given:
  "customer_email_field L db inst partial (Given e) = Valid v \<Longrightarrow> v = Some (strip L e)"
  by (simp add: customer_email_field_def char_field_Given split: if_splits)

lemma applicant_is_valid_Inr:
  "applicant_is_valid L db inst partial pl = Inr v \<Longrightarrow>
   field_errors ''email'' (applicant_email_field L db inst partial (p_email pl)) = [] \<and>
   field_errors ''phone'' (applicant_phone_field L partial (p_phone pl)) = [] \<and>
   v_email v = validated (applicant_email_field L db inst partial (p_email pl)) \<and>
   v_phone v = validated (applicant_phone_field L partial (p_phone pl))"
  by (auto simp: applicant_is_valid_def Let_def split: if_splits)

lemma applicant_is_valid_Inl:
  "applicant_is_valid L db inst partial pl = Inl errs \<Longrightarrow>
   errs = field_errors ''name'' (applicant_name_field L partial (p_name pl)) @
          field_errors ''email'' (applicant_email_field L db inst partial (p_email pl)) @
          field_errors ''phone'' (applicant_phone_field L partial (p_phone pl))"
  by (auto simp: applicant_is_valid_def Let_def split: if_splits)

lemma applicant_is_valid_refused:
  "field_errors ''phone'' (applicant_phone_field L partial (p_phone pl)) \<noteq> [] \<Longrightarrow>
   applicant_is_valid L db inst partial pl =
     Inl (field_errors ''name'' (applicant_name_field L partial (p_name pl)) @
          field_errors ''email'' (applicant_email_field L db inst partial (p_email pl)) @
          field_errors ''phone'' (applicant_phone_field L partial (p_phone pl)))"
  by (simp add: applicant_is_valid_def Let_def)

lemma customer_is_valid_Inr:
  "customer_is_valid L db inst partial pl = Inr v \<Longrightarrow>
   field_errors ''email'' (customer_email_field L db inst partial (cp_email pl)) = [] \<and>
   cv_email v = validated (customer_email_field L db inst partial (cp_email pl))"
  by (auto simp: customer_is_valid_def Let_def split: if_splits)

lemma valid_of_no_errors:
  "field_errors name r = [] \<Longrightarrow> r = Invalid [] \<or> r = Skip \<or> (\<exists>v. r = Valid v)"
  by (cases r) auto

lemma email_field_not_empty_Invalid:
  "applicant_email_field L db inst partial (Given e) \<noteq> Invalid []"
  "applicant_email_field L db inst partial (Given e) \<noteq> Skip"
  by (simp_all add: applicant_email_field_def char_field_Given blank_msg_def)

lemma customer_email_field_not_empty_Invalid:
  "customer_email_field L db inst partial (Given e) \<noteq> Invalid []"
  "customer_email_field L db inst partial (Given e) \<noteq> Skip"
  by (simp_all add: customer_email_field_def char_field_Given blank_msg_def)

lemma applicant_valid_email:
  assumes "applicant_is_valid L db inst partial pl = Inr v" and "p_email pl = Given e"
  shows "v_email v = Some (Some (lower L (strip L e)))"
proof -
  from applicant_is_valid_Inr[OF assms(1)] assms(2)
  have n: "field_errors ''email'' (applicant_email_field L db inst partial (Given e)) = []"
    and v: "v_email v = validated (applicant_email_field L db inst partial (Given e))"
    by simp_all
  from valid_of_no_errors[OF n] email_field_not_empty_Invalid[of L db inst partial e]
  obtain w where w: "applicant_email_field L db inst partial (Given e) = Valid w"
    by blast
  from email_field_Given[OF w] v w show ?thesis by simp
qed

lemma customer_valid_email:
  assumes "customer_is_valid L db inst partial pl = Inr v" and "cp_email pl = Given e"
  shows "cv_email v = Some (Some (strip L e))"
proof -
  from customer_is_valid_Inr[OF assms(1)] assms(2)
  have n: "field_errors ''email'' (customer_email_field L db inst partial (Given e)) = []"
    and v: "cv_email v = validated (customer_email_field L db inst partial (Given e))"
    by simp_all
  from valid_of_no_errors[OF n] customer_email_field_not_empty_Invalid[of L db inst partial e]
  obtain w where w: "customer_email_field L db inst partial (Given e) = Valid w"
    by blast
  from customer_email_field_Given[OF w] v w show ?thesis by simp
qed

lemma cleaned_eq:
  "replace_empty (CHR ''+'') (replace_empty (CHR '')'')
     (replace_empty (CHR ''('') (replace_empty (CHR ''-'') (replace_empty (CHR '' '') s)))) =
   filter (\<lambda>c. c \<notin> set (lit '' -()+'')) s"
  by (induction s) (auto simp: replace_empty_def lit_def)

lemma validate_phone_iff:
  "s \<noteq> [] \<Longrightarrow>
   validate_phone L (Some s) =
     (if phone_rule L s then Inr (Some s) else Inl (ValidationError (Message phone_msg)))"
  by (simp add: validate_phone_def cleaned_eq isdigit_def phone_rule_def Let_def)

lemma phone_field_Given:
  "strip L s \<noteq> [] \<Longrightarrow> char_validators 15 (strip L s) = [] \<Longrightarrow>
   applicant_phone_field L partial (Given s) =
     (if phone_rule L (strip L s) then Valid (Some (strip L s)) else Invalid [phone_msg])"
  by (simp add: applicant_phone_field_def char_field_Given_blank validate_phone_iff)

lemma phone_field_blank:
  "strip L s = [] \<Longrightarrow> applicant_phone_field L partial (Given s) = Valid (Some [])"
  by (simp add: applicant_phone_field_def char_field_Given_blank validate_phone_def)

lemma phone_field_absent:
  "applicant_phone_field L partial Absent = Skip"
  "applicant_phone_field L partial Null = Valid None"
  by (simp_all add: applicant_phone_field_def char_field_def validate_phone_def)

lemma phone_not_in_errors:
  assumes "applicant_is_valid L db inst partial pl = Inl errs"
    and "field_errors ''phone'' (applicant_phone_field L partial (p_phone pl)) = []"
  shows "''phone'' \<notin> fst ` set errs"
proof -
  from applicant_is_valid_Inl[OF assms(1)] assms(2)
  have "errs = field_errors ''name'' (applicant_name_field L partial (p_name pl)) @
          field_errors ''email'' (applicant_email_field L db inst partial (p_email pl))"
    by simp
  then have "fst ` set errs \<subseteq> {''name'', ''email''}"
    using field_errors_name[of "''name''" "applicant_name_field L partial (p_name pl)"]
      field_errors_name[of "''email''" "applicant_email_field L db inst partial (p_email pl)"]
    by auto
  then show ?thesis by auto
qed

lemmas example_defs =
  applicant_name_field_def applicant_email_field_def applicant_phone_field_def
  customer_name_field_def customer_email_field_def
  char_field_def strip_def example_lib_def char_validators_def email_validator_def
  validate_email_def lower_def validate_phone_def isdigit_def replace_empty_def lit_def
  Let_def

lemma jane_created:
  "applicant_create example_lib empty_jobs_db
      \<lparr>p_name = Given (lit ''Jane Smith''), p_email = Given (lit '' Jane@Example.com''),
       p_phone = Absent\<rparr> =
     (Http201 jane, empty_jobs_db\<lparr>applicants := [jane], applicant_seq := 2\<rparr>)"
  by (simp add: applicant_create_def applicant_is_valid_def applicant_unique_validator_def
        applicant_email_taken_def empty_jobs_db_def jane_def example_defs)

lemma jane_updated:
  "applicant_update example_lib (empty_jobs_db\<lparr>applicants := [jane], applicant_seq := 2\<rparr>) 1
      True \<lparr>p_name = Absent, p_email = Given (lit ''J.Smith@Example.com''), p_phone = Absent\<rparr> =
     (Http200 (jane\<lparr>a_email := lit ''j.smith@example.com''\<rparr>),
      empty_jobs_db\<lparr>applicants := [jane\<lparr>a_email := lit ''j.smith@example.com''\<rparr>],
                     applicant_seq := 2\<rparr>)"
  by (simp add: applicant_update_def applicant_is_valid_def applicant_unique_validator_def
        applicant_email_taken_def empty_jobs_db_def jane_def example_defs)

lemma alice_created:
  "customer_create example_lib empty_sales_db
      \<lparr>cp_name = Given (lit ''Alice Johnson''),
       cp_email = Given (lit ''Alice@Example.com  '')\<rparr> =
     (Http201 (alice\<lparr>c_email := lit ''Alice@Example.com''\<rparr>),
      empty_sales_db\<lparr>customer_table := [alice\<lparr>c_email := lit ''Alice@Example.com''\<rparr>],
                      customer_seq := 2\<rparr>)"
  by (simp add: customer_create_def customer_is_valid_def customer_unique_validator_def
        customer_email_taken_def empty_sales_db_def alice_def example_defs)

lemma alice_updated:
  "customer_update example_lib (empty_sales_db\<lparr>customer_table := [alice], customer_seq := 2\<rparr>)
      1 True \<lparr>cp_name = Absent, cp_email = Given (lit ''Alice.J@Example.com'')\<rparr> =
     (Http200 (alice\<lparr>c_email := lit ''Alice.J@Example.com''\<rparr>),
      empty_sales_db\<lparr>customer_table := [alice\<lparr>c_email := lit ''Alice.J@Example.com''\<rparr>],
                      customer_seq := 2\<rparr>)"
  by (simp add: customer_update_def customer_is_valid_def customer_unique_validator_def
        customer_email_taken_def empty_sales_db_def alice_def example_defs)

lemma example_strip:
  "strip example_lib (lit '' Jane@Example.com'') = lit ''Jane@Example.com''"
  "strip example_lib (lit ''J.Smith@Example.com'') = lit ''J.Smith@Example.com''"
  "strip example_lib (lit ''Alice@Example.com  '') = lit ''Alice@Example.com''"
  "strip example_lib (lit ''Alice.J@Example.com'') = lit ''Alice.J@Example.com''"
  "strip example_lib (lit ''555-CALL'') = lit ''555-CALL''"
  "strip example_lib (lit '' 555-123-4567 '') = lit ''555-123-4567''"
  "strip example_lib (lit ''  '') = []"
  by (simp_all add: strip_def example_lib_def lit_def)

lemma example_phone_rule:
  "phone_rule example_lib (lit ''+1 (555) 123-4567'')"
  "\<not> phone_rule example_lib (lit ''555-CALL'')"
  "phone_rule example_lib (lit ''555-123-4567'')"
  by (simp_all add: phone_rule_def example_lib_def lit_def)

lemma example_validators:
  "char_validators 15 (lit ''555-CALL'') = []"
  "char_validators 15 (lit ''555-123-4567'') = []"
  by (simp_all add: char_validators_def lit_def)

lemma jane_phone_created:
  "applicant_create example_lib empty_jobs_db
      \<lparr>p_name = Given (lit ''Jane Smith''), p_email = Given (lit ''jane@example.com''),
       p_phone = Given (lit '' 555-123-4567 '')\<rparr> =
     (Http201 (jane\<lparr>a_phone := Some (lit ''555-123-4567'')\<rparr>),
      empty_jobs_db\<lparr>applicants := [jane\<lparr>a_phone := Some (lit ''555-123-4567'')\<rparr>],
                     applicant_seq := 2\<rparr>)"
  by (simp add: applicant_create_def applicant_is_valid_def applicant_unique_validator_def
        applicant_email_taken_def empty_jobs_db_def jane_def example_defs)

lemma jane_blank_created:
  "applicant_create example_lib empty_jobs_db
      \<lparr>p_name = Given (lit ''Jane Smith''), p_email = Given (lit ''jane@example.com''),
       p_phone = Given (lit ''  '')\<rparr> =
     (Http201 (jane\<lparr>a_phone := Some []\<rparr>),
      empty_jobs_db\<lparr>applicants := [jane\<lparr>a_phone := Some []\<rparr>], applicant_seq := 2\<rparr>)"
  by (simp add: applicant_create_def applicant_is_valid_def applicant_unique_validator_def
        applicant_email_taken_def empty_jobs_db_def jane_def example_defs)

section \<open>C1: one application per applicant and job\<close>

text \<open>
  Claim C1. The empty table satisfies the uniqueness of (applicant, job) pairs, and every
  operation that writes the application table (\<^verbatim>\<open>Application.objects.create\<close>, the
  create, update and delete endpoints of the viewset, the apply endpoint, and the deletion
  of an applicant or a job, which cascades) preserves it together with the uniqueness of
  the primary key, so that at most one application is stored for any pair.
  When an application for the pair is stored (applicant and job being rows of their tables,
  as the foreign keys demand), a further create request for the pair with an otherwise valid
  payload is answered 400 with a duplicate-application validation error, and the database,
  hence the number of applications of the pair, is unchanged. On the viewset the error is
  the one of the \<^verbatim>\<open>UniqueTogetherValidator\<close> that the serializer derives from the model's
  constraint, which runs before \<^verbatim>\<open>ApplicationSerializer.validate\<close>; \<^verbatim>\<open>validate\<close> would
  raise its own duplicate message for the same data. On the apply endpoint the error is the
  message of \<^verbatim>\<open>ApplySerializer.validate\<close>. The insert itself is refused by the constraint.
\<close>

theorem duplicate_application:
  "unique_applicant_job empty_jobs_db \<and> application_keys empty_jobs_db \<and>
   (unique_applicant_job db \<and> application_keys db \<longrightarrow>
      count_applications db a j \<le> 1 \<and>
      unique_applicant_job (snd (application_objects_create now db a j s)) \<and>
      application_keys (snd (application_objects_create now db a j s)) \<and>
      unique_applicant_job (snd (application_viewset_create now db data)) \<and>
      application_keys (snd (application_viewset_create now db data)) \<and>
      unique_applicant_job (snd (apply_for_job now db ad)) \<and>
      application_keys (snd (apply_for_job now db ad)) \<and>
      unique_applicant_job (snd (application_viewset_update db pk partial data)) \<and>
      application_keys (snd (application_viewset_update db pk partial data)) \<and>
      unique_applicant_job (snd (application_viewset_destroy db pk)) \<and>
      application_keys (snd (application_viewset_destroy db pk)) \<and>
      unique_applicant_job (snd (applicant_viewset_destroy db pk)) \<and>
      application_keys (snd (applicant_viewset_destroy db pk)) \<and>
      unique_applicant_job (snd (job_viewset_destroy db pk)) \<and>
      application_keys (snd (job_viewset_destroy db pk))) \<and>
   (application_exists db (Some a) (Some j) \<and>
    applicant_objects_get db a = Inr ar \<and> job_objects_get db j = Inr jr \<and>
    (\<forall>s. st = Some s \<longrightarrow> s \<in> set status_choices) \<longrightarrow>
      application_viewset_create now db \<lparr>d_applicant = Some a, d_job = Some j, d_status = st\<rparr> =
        (Http400 (ValidationError (Fields [(''non_field_errors'', unique_together_msg)])), db) \<and>
      application_serializer_validate db None
          \<lparr>d_applicant = Some a, d_job = Some j, d_status = st\<rparr> =
        Inl (ValidationError (Message duplicate_msg)) \<and>
      apply_for_job now db \<lparr>apply_applicant_id = a, apply_job_id = j\<rparr> =
        (Http400 (ValidationError (Fields [(''non_field_errors'',
            a_name ar @ lit '' has already applied for '' @ j_title jr @
            lit ''. Duplicate applications are not allowed.'')])), db) \<and>
      application_objects_create now db a j s = (Inl IntegrityError, db))"
proof (intro conjI impI)
  show "unique_applicant_job empty_jobs_db"
    by (simp add: unique_applicant_job_def empty_jobs_db_def)
  show "application_keys empty_jobs_db"
    by (simp add: application_keys_def empty_jobs_db_def)
next
  assume "unique_applicant_job db \<and> application_keys db"
  then have u: "unique_applicant_job db" and k: "application_keys db" by blast+
  from u show "count_applications db a j \<le> 1"
    by (rule count_applications_le1)
  from u show "unique_applicant_job (snd (application_objects_create now db a j s))"
    by (rule objects_create_unique)
  from k show "application_keys (snd (application_objects_create now db a j s))"
    by (rule objects_create_keys)
  from u show "unique_applicant_job (snd (application_viewset_create now db data))"
    by (rule viewset_create_unique)
  from k show "application_keys (snd (application_viewset_create now db data))"
    by (rule viewset_create_keys)
  from u show "unique_applicant_job (snd (apply_for_job now db ad))"
    by (rule apply_unique)
  from k show "application_keys (snd (apply_for_job now db ad))"
    by (rule apply_keys)
  from viewset_update_unique[OF u k]
  show "unique_applicant_job (snd (application_viewset_update db pk partial data))"
    "application_keys (snd (application_viewset_update db pk partial data))"
    by blast+
  from viewset_destroy_unique[OF u k]
  show "unique_applicant_job (snd (application_viewset_destroy db pk))"
    "application_keys (snd (application_viewset_destroy db pk))"
    by blast+
  from cascade_unique[OF u k]
  show "unique_applicant_job (snd (applicant_viewset_destroy db pk))"
    "application_keys (snd (applicant_viewset_destroy db pk))"
    "unique_applicant_job (snd (job_viewset_destroy db pk))"
    "application_keys (snd (job_viewset_destroy db pk))"
    by blast+
next
  assume h: "application_exists db (Some a) (Some j) \<and>
    applicant_objects_get db a = Inr ar \<and> job_objects_get db j = Inr jr \<and>
    (\<forall>s. st = Some s \<longrightarrow> s \<in> set status_choices)"
  then show "application_viewset_create now db
               \<lparr>d_applicant = Some a, d_job = Some j, d_status = st\<rparr> =
        (Http400 (ValidationError (Fields [(''non_field_errors'', unique_together_msg)])), db)"
    using viewset_create_duplicate by blast
  from h show "application_serializer_validate db None
          \<lparr>d_applicant = Some a, d_job = Some j, d_status = st\<rparr> =
        Inl (ValidationError (Message duplicate_msg))"
    by (simp add: application_serializer_validate_def)
  from h show "apply_for_job now db \<lparr>apply_applicant_id = a, apply_job_id = j\<rparr> =
        (Http400 (ValidationError (Fields [(''non_field_errors'',
            a_name ar @ lit '' has already applied for '' @ j_title jr @
            lit ''. Duplicate applications are not allowed.'')])), db)"
    using apply_duplicate by blast
  from h show "application_objects_create now db a j s = (Inl IntegrityError, db)"
    using objects_create_duplicate by blast
qed

theorem duplicate_application_witness:
  "apply_for_job 2 applied_db \<lparr>apply_applicant_id = 1, apply_job_id = 1\<rparr> =
     (Http400 (ValidationError (Fields [(''non_field_errors'',
        lit ''Jane Smith has already applied for Django Developer. Duplicate applications are not allowed.'')])),
      applied_db) \<and>
   application_viewset_create 2 applied_db
       \<lparr>d_applicant = Some 1, d_job = Some 1, d_status = None\<rparr> =
     (Http400 (ValidationError (Fields [(''non_field_errors'', unique_together_msg)])),
      applied_db) \<and>
   count_applications applied_db 1 1 \<le> 1 \<and>
   unique_applicant_job (snd (apply_for_job 2 (applied_db\<lparr>applications := []\<rparr>)
                                \<lparr>apply_applicant_id = 1, apply_job_id = 1\<rparr>))"
proof -
  have e: "application_exists applied_db (Some 1) (Some 1)"
    by (simp add: application_exists_def applied_db_def jane_application_def)
  have ga: "applicant_objects_get applied_db 1 = Inr jane"
    by (simp add: applicant_objects_get_def applied_db_def jane_def)
  have gj: "job_objects_get applied_db 1 = Inr django_job"
    by (simp add: job_objects_get_def applied_db_def django_job_def)
  have u: "unique_applicant_job applied_db" "application_keys applied_db"
    by (simp_all add: unique_applicant_job_def application_keys_def applied_db_def
          jane_application_def)
  have u0: "unique_applicant_job (applied_db\<lparr>applications := []\<rparr>)"
    "application_keys (applied_db\<lparr>applications := []\<rparr>)"
    by (simp_all add: unique_applicant_job_def application_keys_def)
  note t = duplicate_application [where db = applied_db and a = 1 and j = 1 and ar = jane
      and jr = django_job and st = None and now = 2]
  from t e ga gj
  have 1: "apply_for_job 2 applied_db \<lparr>apply_applicant_id = 1, apply_job_id = 1\<rparr> =
     (Http400 (ValidationError (Fields [(''non_field_errors'',
        a_name jane @ lit '' has already applied for '' @ j_title django_job @
            lit ''. Duplicate applications are not allowed.'')])), applied_db)"
    and 2: "application_viewset_create 2 applied_db
              \<lparr>d_applicant = Some 1, d_job = Some 1, d_status = None\<rparr> =
     (Http400 (ValidationError (Fields [(''non_field_errors'', unique_together_msg)])),
      applied_db)"
    by simp_all
  from t u have 3: "count_applications applied_db 1 1 \<le> 1"
    by blast
  from duplicate_application [where db = "applied_db\<lparr>applications := []\<rparr>" and now = 2] u0
  have 4: "unique_applicant_job (snd (apply_for_job 2 (applied_db\<lparr>applications := []\<rparr>)
                                \<lparr>apply_applicant_id = 1, apply_job_id = 1\<rparr>))"
    by blast
  have l: "a_name jane @ lit '' has already applied for '' @ j_title django_job @
            lit ''. Duplicate applications are not allowed.'' =
     lit ''Jane Smith has already applied for Django Developer. Duplicate applications are not allowed.''"
    by (simp add: jane_def django_job_def lit_def)
  from 1 have 5: "apply_for_job 2 applied_db \<lparr>apply_applicant_id = 1, apply_job_id = 1\<rparr> =
     (Http400 (ValidationError (Fields [(''non_field_errors'',
        lit ''Jane Smith has already applied for Django Developer. Duplicate applications are not allowed.'')])),
      applied_db)"
    by (simp only: l)
  from 5 2 3 4 show ?thesis by blast
qed

section \<open>C2: the total price of an order\<close>



section \<open>C3: the sales summary\<close>

text \<open>
  Claim C3, a defect of the code. The claim, the docstring of \<^verbatim>\<open>sales_summary\<close> and
  \<^verbatim>\<open>test_sales_summary\<close> expect the view to answer with the totals of the selected
  orders; for the data of \<^verbatim>\<open>AnalyticsAPITest\<close> and a request without parameters, with
  \<^verbatim>\<open>total_sales\<close> 2350.00. The view does not answer: its first query coalesces a decimal
  sum with the integer literal \<^verbatim>\<open>0\<close>, and executing it raises \<^verbatim>\<open>FieldError\<close>. This is so
  for that request, where the sum the database computes is the expected 2350.00, and for
  every other: no request is answered with a report.
\<close>

theorem sales_summary_raises:
  "sales_summary test_datetime analytics_db Map.empty = Inl FieldError \<and>
   summary_orders test_datetime analytics_db Map.empty = Inr [bob_order, alice_order] \<and>
   sql_sum (concat (map (amount_column analytics_db) [bob_order, alice_order])) = Some 235000 \<and>
   sales_summary to_datetime db qp \<noteq> Inr rep"
proof -
  have 1: "summary_orders test_datetime analytics_db Map.empty = Inr [bob_order, alice_order]"
    by (simp add: summary_orders_def filter_param_def bind_err_def orders_all_analytics)
  have 2: "sales_summary test_datetime analytics_db Map.empty = Inl FieldError"
    by (simp add: sales_summary_def 1 bind_err_def)
  have 3: "sql_sum (concat (map (amount_column analytics_db) [bob_order, alice_order])) =
             Some 235000"
    by (simp add: query_defs analytics_db_def alice_order_def bob_order_def)
  from 1 2 3 sales_summary_no_report[of to_datetime db qp rep] show ?thesis by blast
qed

section \<open>C4: the top customers\<close>

text \<open>
  Claim C4, a defect of the code. The claim, the docstring of \<^verbatim>\<open>top_customers\<close> and
  \<^verbatim>\<open>test_top_customers\<close> expect a ranking of customers with what each has spent; for the
  data of \<^verbatim>\<open>AnalyticsAPITest\<close> and a request without parameters, Alice with 2075.00
  before Bob with 275.00. The view does not answer. Its annotation coalesces a decimal sum
  with the integer literal \<^verbatim>\<open>0\<close>, so executing the query raises \<^verbatim>\<open>FieldError\<close>, for that
  request as for every other: no request is answered with a ranking. And the annotation is
  named \<^verbatim>\<open>total_spent\<close>, which the \<^verbatim>\<open>Customer\<close> class defines as a property without
  a setter: the rows that the query selects for that request, which carry the expected
  amounts, cannot be made into \<^verbatim>\<open>Customer\<close> objects either.
\<close>

theorem top_customers_raises:
  "top_customers test_datetime analytics_db Map.empty = Inl FieldError \<and>
   map (\<lambda>e. (ce_id e, total_spent e))
     (order_by_desc_top5 total_spent
        (customer_rows analytics_db [] (customer_table analytics_db))) =
     [(1, 207500), (2, 27500)] \<and>
   customer_instances
     (order_by_desc_top5 total_spent
        (customer_rows analytics_db [] (customer_table analytics_db))) = Inl AttributeError \<and>
   top_customers to_datetime db qp \<noteq> Inr rep"
proof -
  have 1: "top_customers test_datetime analytics_db Map.empty = Inl FieldError"
    by (simp add: top_customers_def build_order_filter_def filter_entry_def
          annotate_customers_def resolve_output_field_def bind_err_def)
  have 2: "map (\<lambda>e. (ce_id e, total_spent e))
     (order_by_desc_top5 total_spent
        (customer_rows analytics_db [] (customer_table analytics_db))) =
     [(1, 207500), (2, 27500)]"
    by (simp add: query_defs analytics_db_def alice_order_def bob_order_def)
  from 2 have "order_by_desc_top5 total_spent
        (customer_rows analytics_db [] (customer_table analytics_db)) \<noteq> []"
    by auto
  then have 3: "customer_instances
     (order_by_desc_top5 total_spent
        (customer_rows analytics_db [] (customer_table analytics_db))) = Inl AttributeError"
    by (simp add: customer_instances_def)
  from 1 2 3 top_customers_no_report[of to_datetime db qp rep] show ?thesis by blast
qed

section \<open>C5: the order and the length of the top lists\<close>

text \<open>
  Claim C5, a defect of the code. The claim speaks of the lists that \<^verbatim>\<open>top_customers\<close>
  and \<^verbatim>\<open>top_products\<close> return, and \<^verbatim>\<open>test_top_products\<close> expects, for the data of
  \<^verbatim>\<open>AnalyticsAPITest\<close> and a request without parameters, the three products with the
  quantities 8, 2 and 2. Neither view returns a list. \<^verbatim>\<open>top_products\<close> annotates
  \<^verbatim>\<open>total_revenue\<close>, a decimal sum coalesced with the integer literal \<^verbatim>\<open>0\<close>, so that
  executing its query raises \<^verbatim>\<open>FieldError\<close> although the rows the query selects carry
  the expected quantities; \<^verbatim>\<open>top_customers\<close> fails in the same way. No request to
  either view is answered with a list.
\<close>

theorem top_lists_raise:
  "top_products test_datetime analytics_db Map.empty = Inl FieldError \<and>
   top_customers test_datetime analytics_db Map.empty = Inl FieldError \<and>
   map total_quantity_sold
     (order_by_desc_top5 total_quantity_sold
        (product_rows analytics_db [] (product_table analytics_db))) = [8, 2, 2] \<and>
   top_products to_datetime db qp \<noteq> Inr prep \<and>
   top_customers to_datetime db qp \<noteq> Inr crep"
proof -
  have 1: "top_products test_datetime analytics_db Map.empty = Inl FieldError"
    by (simp add: top_products_def build_order_filter_def filter_entry_def
          annotate_products_def resolve_output_field_def bind_err_def)
  have 2: "top_customers test_datetime analytics_db Map.empty = Inl FieldError"
    by (simp add: top_customers_def build_order_filter_def filter_entry_def
          annotate_customers_def resolve_output_field_def bind_err_def)
  have 3: "map total_quantity_sold
     (order_by_desc_top5 total_quantity_sold
        (product_rows analytics_db [] (product_table analytics_db))) = [8, 2, 2]"
    by (simp add: query_defs analytics_db_def)
  from 1 2 3 top_products_no_report[of to_datetime db qp prep]
    top_customers_no_report[of to_datetime db qp crep]
  show ?thesis by blast
qed

section \<open>C6: the bounds of the date filter\<close>

text \<open>
  Claim C6, a defect of the code. The claim expects an order placed exactly at a bound to be
  counted by the order list and by the three reports. On the data of \<^verbatim>\<open>AnalyticsAPITest\<close>,
  Bob's order is placed on 2024-07-18 and Alice's on 2024-01-10. The order list does as
  claimed: with \<^verbatim>\<open>from=2024-07-18\<close> it returns Bob's order, with \<^verbatim>\<open>to=2024-01-10\<close>
  Alice's, with both bounds set to one of the two dates the order of that date. The
  queryset that \<^verbatim>\<open>sales_summary\<close> filters holds the order at the bound as well. But none
  of the three reports answers these requests: each raises \<^verbatim>\<open>FieldError\<close> when it executes
  its query, so the order at the bound is counted in no report.
\<close>

theorem date_bound_reports_raise:
  "order_get_queryset test_int test_datetime analytics_db [''from'' \<mapsto> lit ''2024-07-18''] =
     Inr [bob_order] \<and>
   order_get_queryset test_int test_datetime analytics_db [''to'' \<mapsto> lit ''2024-01-10''] =
     Inr [alice_order] \<and>
   order_get_queryset test_int test_datetime analytics_db
     [''from'' \<mapsto> lit ''2024-01-10'', ''to'' \<mapsto> lit ''2024-01-10''] = Inr [alice_order] \<and>
   summary_orders test_datetime analytics_db [''from'' \<mapsto> lit ''2024-07-18''] = Inr [bob_order] \<and>
   sales_summary test_datetime analytics_db [''from'' \<mapsto> lit ''2024-07-18''] = Inl FieldError \<and>
   top_customers test_datetime analytics_db [''from'' \<mapsto> lit ''2024-07-18''] = Inl FieldError \<and>
   top_products test_datetime analytics_db [''from'' \<mapsto> lit ''2024-07-18''] = Inl FieldError \<and>
   sales_summary test_datetime analytics_db [''to'' \<mapsto> lit ''2024-01-10''] = Inl FieldError \<and>
   top_customers test_datetime analytics_db [''to'' \<mapsto> lit ''2024-01-10''] = Inl FieldError \<and>
   top_products test_datetime analytics_db [''to'' \<mapsto> lit ''2024-01-10''] = Inl FieldError"
proof -
  have 1: "order_get_queryset test_int test_datetime analytics_db
             [''from'' \<mapsto> lit ''2024-07-18''] = Inr [bob_order]"
    by (simp add: order_get_queryset_def filter_param_def bind_err_def orders_all_analytics
          test_datetime_def alice_order_def bob_order_def)
  have 2: "order_get_queryset test_int test_datetime analytics_db
             [''to'' \<mapsto> lit ''2024-01-10''] = Inr [alice_order]"
    by (simp add: order_get_queryset_def filter_param_def bind_err_def orders_all_analytics
          test_datetime_def alice_order_def bob_order_def)
  have 3: "order_get_queryset test_int test_datetime analytics_db
     [''from'' \<mapsto> lit ''2024-01-10'', ''to'' \<mapsto> lit ''2024-01-10''] = Inr [alice_order]"
    by (simp add: order_get_queryset_def filter_param_def bind_err_def orders_all_analytics
          test_datetime_def alice_order_def bob_order_def)
  have 4: "summary_orders test_datetime analytics_db [''from'' \<mapsto> lit ''2024-07-18''] =
             Inr [bob_order]"
    by (simp add: summary_orders_def filter_param_def bind_err_def orders_all_analytics
          test_datetime_def alice_order_def bob_order_def)
  have 5: "sales_summary test_datetime analytics_db [''from'' \<mapsto> lit ''2024-07-18''] =
             Inl FieldError"
    by (simp add: sales_summary_def 4 bind_err_def)
  have p: "prepare test_datetime (build_order_filter [''from'' \<mapsto> lit ''2024-07-18'']) =
             Inr [(Gte, 200)]"
    "prepare test_datetime (build_order_filter [''to'' \<mapsto> lit ''2024-01-10'']) =
             Inr [(Lte, 10)]"
    by (simp_all add: build_order_filter_def filter_entry_def test_datetime_def)
  have 6: "top_customers test_datetime analytics_db [''from'' \<mapsto> lit ''2024-07-18''] =
             Inl FieldError"
    "top_customers test_datetime analytics_db [''to'' \<mapsto> lit ''2024-01-10''] = Inl FieldError"
    by (simp_all add: top_customers_def p annotate_customers_def resolve_output_field_def
          bind_err_def Let_def)
  have 7: "top_products test_datetime analytics_db [''from'' \<mapsto> lit ''2024-07-18''] =
             Inl FieldError"
    "top_products test_datetime analytics_db [''to'' \<mapsto> lit ''2024-01-10''] = Inl FieldError"
    by (simp_all add: top_products_def p annotate_products_def resolve_output_field_def
          bind_err_def Let_def)
  have 8: "sales_summary test_datetime analytics_db [''to'' \<mapsto> lit ''2024-01-10''] =
             Inl FieldError"
    by (simp add: sales_summary_def summary_orders_def filter_param_def bind_err_def
          test_datetime_def Let_def)
  from 1 2 3 4 5 6 7 8 show ?thesis by blast
qed

section \<open>C7: e-mail values on write\<close>

text \<open>
  Claim C7, as amended. A write to an Applicant that is accepted (created with 201, or
  updated with 200 by PUT or PATCH) and whose body carries an e-mail stores the row with
  the lower-case form of the submitted e-mail after its leading and trailing whitespace has
  been removed: the e-mail field trims the value before \<^verbatim>\<open>validate_email\<close> lower-cases it.
  A write to a Customer that is accepted stores the submitted e-mail with its leading and
  trailing whitespace removed and its case unchanged: \<^verbatim>\<open>CustomerSerializer\<close> has no e-mail
  normalisation of its own.
\<close>

theorem email_persisted:
  "(applicant_create L db pl = (Http201 row, db') \<and> p_email pl = Given e \<longrightarrow>
      a_email row = lower L (strip L e) \<and> row \<in> set (applicants db')) \<and>
   (applicant_update L db pk partial pl = (Http200 row, db') \<and> p_email pl = Given e \<longrightarrow>
      a_email row = lower L (strip L e) \<and> row \<in> set (applicants db')) \<and>
   (customer_create L sdb cpl = (Http201 crow, sdb') \<and> cp_email cpl = Given e \<longrightarrow>
      c_email crow = strip L e \<and> crow \<in> set (customer_table sdb')) \<and>
   (customer_update L sdb pk partial cpl = (Http200 crow, sdb') \<and> cp_email cpl = Given e \<longrightarrow>
      c_email crow = strip L e \<and> crow \<in> set (customer_table sdb'))"
proof (intro conjI impI)
  assume a: "applicant_create L db pl = (Http201 row, db') \<and> p_email pl = Given e"
  then obtain v where v: "applicant_is_valid L db None False pl = Inr v"
    by (auto simp: applicant_create_def split: sum.splits)
  from applicant_valid_email[OF v] a have e: "v_email v = Some (Some (lower L (strip L e)))"
    by blast
  from a v e show "a_email row = lower L (strip L e)"
    by (auto simp: applicant_create_def Let_def split: if_splits)
  from a v show "row \<in> set (applicants db')"
    by (auto simp: applicant_create_def Let_def split: if_splits)
next
  assume a: "applicant_update L db pk partial pl = (Http200 row, db') \<and> p_email pl = Given e"
  then obtain inst where f: "find (\<lambda>a. a_id a = pk) (applicants db) = Some inst"
    by (auto simp: applicant_update_def split: option.splits)
  with a obtain v where v: "applicant_is_valid L db (Some inst) partial pl = Inr v"
    by (auto simp: applicant_update_def split: sum.splits)
  from applicant_valid_email[OF v] a have e: "v_email v = Some (Some (lower L (strip L e)))"
    by blast
  from a f v e show "a_email row = lower L (strip L e)"
    by (auto simp: applicant_update_def Let_def split: if_splits)
  from a f v show "row \<in> set (applicants db')"
    by (auto simp: applicant_update_def Let_def split: if_splits
             dest!: find_Some_mem intro!: map_replace_mem[where key = a_id, simplified])
next
  assume a: "customer_create L sdb cpl = (Http201 crow, sdb') \<and> cp_email cpl = Given e"
  then obtain v where v: "customer_is_valid L sdb None False cpl = Inr v"
    by (auto simp: customer_create_def split: sum.splits)
  from customer_valid_email[OF v] a have e: "cv_email v = Some (Some (strip L e))"
    by blast
  from a v e show "c_email crow = strip L e"
    by (auto simp: customer_create_def Let_def split: if_splits)
  from a v show "crow \<in> set (customer_table sdb')"
    by (auto simp: customer_create_def Let_def split: if_splits)
next
  assume a: "customer_update L sdb pk partial cpl = (Http200 crow, sdb') \<and> cp_email cpl = Given e"
  then obtain inst where f: "find (\<lambda>c. c_id c = pk) (customer_table sdb) = Some inst"
    by (auto simp: customer_update_def split: option.splits)
  with a obtain v where v: "customer_is_valid L sdb (Some inst) partial cpl = Inr v"
    by (auto simp: customer_update_def split: sum.splits)
  from customer_valid_email[OF v] a have e: "cv_email v = Some (Some (strip L e))"
    by blast
  from a f v e show "c_email crow = strip L e"
    by (auto simp: customer_update_def Let_def split: if_splits)
  from a f v show "crow \<in> set (customer_table sdb')"
    by (auto simp: customer_update_def Let_def split: if_splits
             dest!: find_Some_mem intro!: map_replace_mem[where key = c_id, simplified])
qed

theorem email_persisted_witness:
  "applicant_create example_lib empty_jobs_db
      \<lparr>p_name = Given (lit ''Jane Smith''), p_email = Given (lit '' Jane@Example.com''),
       p_phone = Absent\<rparr> =
     (Http201 jane, empty_jobs_db\<lparr>applicants := [jane], applicant_seq := 2\<rparr>) \<and>
   a_email jane = lower example_lib (strip example_lib (lit '' Jane@Example.com'')) \<and>
   a_email jane = lit ''jane@example.com'' \<and>
   a_email (jane\<lparr>a_email := lit ''j.smith@example.com''\<rparr>) =
     lower example_lib (strip example_lib (lit ''J.Smith@Example.com'')) \<and>
   c_email (alice\<lparr>c_email := lit ''Alice@Example.com''\<rparr>) =
     strip example_lib (lit ''Alice@Example.com  '') \<and>
   c_email (alice\<lparr>c_email := lit ''Alice.J@Example.com''\<rparr>) =
     strip example_lib (lit ''Alice.J@Example.com'')"
proof -
  have 1: "a_email jane = lower example_lib (strip example_lib (lit '' Jane@Example.com''))"
    using email_persisted [where L = example_lib and db = empty_jobs_db
          and pl = "\<lparr>p_name = Given (lit ''Jane Smith''),
                     p_email = Given (lit '' Jane@Example.com''), p_phone = Absent\<rparr>"
          and row = jane and db' = "empty_jobs_db\<lparr>applicants := [jane], applicant_seq := 2\<rparr>"
          and e = "lit '' Jane@Example.com''"]
    by (simp only: jane_created applicant_payload.simps simp_thms)
  have 2: "a_email (jane\<lparr>a_email := lit ''j.smith@example.com''\<rparr>) =
             lower example_lib (strip example_lib (lit ''J.Smith@Example.com''))"
    using email_persisted [where L = example_lib
          and db = "empty_jobs_db\<lparr>applicants := [jane], applicant_seq := 2\<rparr>"
          and pk = 1 and partial = True
          and pl = "\<lparr>p_name = Absent, p_email = Given (lit ''J.Smith@Example.com''),
                     p_phone = Absent\<rparr>"
          and row = "jane\<lparr>a_email := lit ''j.smith@example.com''\<rparr>"
          and db' = "empty_jobs_db\<lparr>applicants := [jane\<lparr>a_email := lit ''j.smith@example.com''\<rparr>],
                                    applicant_seq := 2\<rparr>"
          and e = "lit ''J.Smith@Example.com''"]
    by (simp only: jane_updated applicant_payload.simps simp_thms)
  have 3: "c_email (alice\<lparr>c_email := lit ''Alice@Example.com''\<rparr>) =
             strip example_lib (lit ''Alice@Example.com  '')"
    using email_persisted [where L = example_lib and sdb = empty_sales_db
          and cpl = "\<lparr>cp_name = Given (lit ''Alice Johnson''),
                      cp_email = Given (lit ''Alice@Example.com  '')\<rparr>"
          and crow = "alice\<lparr>c_email := lit ''Alice@Example.com''\<rparr>"
          and sdb' = "empty_sales_db\<lparr>customer_table := [alice\<lparr>c_email := lit ''Alice@Example.com''\<rparr>],
                      customer_seq := 2\<rparr>"
          and e = "lit ''Alice@Example.com  ''"]
    by (simp only: alice_created customer_payload.simps simp_thms)
  have 4: "c_email (alice\<lparr>c_email := lit ''Alice.J@Example.com''\<rparr>) =
             strip example_lib (lit ''Alice.J@Example.com'')"
    using email_persisted [where L = example_lib
          and sdb = "empty_sales_db\<lparr>customer_table := [alice], customer_seq := 2\<rparr>"
          and pk = 1 and partial = True
          and cpl = "\<lparr>cp_name = Absent, cp_email = Given (lit ''Alice.J@Example.com'')\<rparr>"
          and crow = "alice\<lparr>c_email := lit ''Alice.J@Example.com''\<rparr>"
          and sdb' = "empty_sales_db\<lparr>customer_table := [alice\<lparr>c_email := lit ''Alice.J@Example.com''\<rparr>],
                                      customer_seq := 2\<rparr>"
          and e = "lit ''Alice.J@Example.com''"]
    by (simp only: alice_updated customer_payload.simps simp_thms)
  have 5: "a_email jane = lit ''jane@example.com''"
    by (simp add: jane_def)
  from 1 2 3 4 5 jane_created show ?thesis by blast
qed

text \<open>
  The claim as stated fails for a Customer: the e-mail \<^verbatim>\<open>Alice@Example.com\<close> is accepted
  and stored as submitted, which is not its lower-case form.
\<close>

theorem customer_email_counterexample:
  "fst (customer_create example_lib empty_sales_db
          \<lparr>cp_name = Given (lit ''Alice''), cp_email = Given (lit ''Alice@Example.com'')\<rparr>) =
     Http201 \<lparr>c_id = 1, c_name = lit ''Alice'', c_email = lit ''Alice@Example.com''\<rparr> \<and>
   lower example_lib (lit ''Alice@Example.com'') = lit ''alice@example.com'' \<and>
   lit ''alice@example.com'' \<noteq> lit ''Alice@Example.com''"
  by (simp add: customer_create_def customer_is_valid_def customer_unique_validator_def
        customer_email_taken_def empty_sales_db_def example_defs)

section \<open>C8: the phone rule\<close>




section \<open>C9: an update without an item list\<close>

text \<open>
  Claim C9. When the validated data of an order update carry no item list,
  \<^verbatim>\<open>OrderSerializer.update\<close> returns the instance with only the supplied customer changed and
  saves exactly that instance; the table of order items is the one before the update. The
  same holds for the PUT and PATCH endpoints, whatever they answer: no item is deleted,
  created or modified, no item key is consumed, and every other order is unchanged.
\<close>

theorem update_without_items:
  "vd_items data = None \<longrightarrow>
     order_serializer_update db instance data =
       (case vd_customer data of None \<Rightarrow> instance | Some c \<Rightarrow> instance\<lparr>o_customer := c\<rparr>,
        order_save db
          (case vd_customer data of None \<Rightarrow> instance | Some c \<Rightarrow> instance\<lparr>o_customer := c\<rparr>)) \<and>
     order_item_table (snd (order_serializer_update db instance data)) = order_item_table db \<and>
     order_item_table (snd (order_viewset_update db pk partial data)) = order_item_table db \<and>
     order_item_seq (snd (order_viewset_update db pk partial data)) = order_item_seq db \<and>
     filter (\<lambda>r. o_id r \<noteq> pk) (order_table (snd (order_viewset_update db pk partial data))) =
       filter (\<lambda>r. o_id r \<noteq> pk) (order_table db)"
proof
  assume a: "vd_items data = None"
  have 1: "order_item_table (snd (order_serializer_update db instance data)) = order_item_table db"
    by (simp add: update_no_items[OF a])
  from view_update_no_items[OF a, of db pk partial]
  have 2: "order_item_table (snd (order_viewset_update db pk partial data)) = order_item_table db"
    and 3: "order_item_seq (snd (order_viewset_update db pk partial data)) = order_item_seq db"
    by auto
  from view_update_no_items[OF a, of db pk partial]
  have 4: "filter (\<lambda>r. o_id r \<noteq> pk) (order_table (snd (order_viewset_update db pk partial data))) =
       filter (\<lambda>r. o_id r \<noteq> pk) (order_table db)"
  proof
    assume "snd (order_viewset_update db pk partial data) = db"
    then show ?thesis by simp
  next
    assume "\<exists>inst. find (\<lambda>r. o_id r = pk) (order_table db) = Some inst \<and>
            snd (order_viewset_update db pk partial data) =
              order_save db (case vd_customer data of None \<Rightarrow> inst
                             | Some c \<Rightarrow> inst\<lparr>o_customer := c\<rparr>)"
    then obtain inst where f: "find (\<lambda>r. o_id r = pk) (order_table db) = Some inst"
      and e: "snd (order_viewset_update db pk partial data) =
              order_save db (case vd_customer data of None \<Rightarrow> inst
                             | Some c \<Rightarrow> inst\<lparr>o_customer := c\<rparr>)" by blast
    from f have "o_id inst = pk" by (auto dest: find_Some_mem)
    then have "o_id (case vd_customer data of None \<Rightarrow> inst | Some c \<Rightarrow> inst\<lparr>o_customer := c\<rparr>) = pk"
      by (simp split: option.splits)
    then show ?thesis unfolding e by (rule order_save_others)
  qed
  from update_no_items[OF a] 1 2 3 4
  show "order_serializer_update db instance data =
       (case vd_customer data of None \<Rightarrow> instance | Some c \<Rightarrow> instance\<lparr>o_customer := c\<rparr>,
        order_save db
          (case vd_customer data of None \<Rightarrow> instance | Some c \<Rightarrow> instance\<lparr>o_customer := c\<rparr>)) \<and>
     order_item_table (snd (order_serializer_update db instance data)) = order_item_table db \<and>
     order_item_table (snd (order_viewset_update db pk partial data)) = order_item_table db \<and>
     order_item_seq (snd (order_viewset_update db pk partial data)) = order_item_seq db \<and>
     filter (\<lambda>r. o_id r \<noteq> pk) (order_table (snd (order_viewset_update db pk partial data))) =
       filter (\<lambda>r. o_id r \<noteq> pk) (order_table db)"
    by blast
qed

theorem update_without_items_witness:
  "order_item_table (snd (order_viewset_update
       (order_model_db\<lparr>customer_table := customer_table order_model_db @
          [\<lparr>c_id = 2, c_name = lit ''Bob Smith'', c_email = lit ''bob@example.com''\<rparr>]\<rparr>) 1 True
       \<lparr>vd_customer = Some 2, vd_items = None\<rparr>)) =
     [\<lparr>oi_id = 1, oi_order = 1, oi_product = 1, quantity = 3\<rparr>] \<and>
   order_table (snd (order_viewset_update
       (order_model_db\<lparr>customer_table := customer_table order_model_db @
          [\<lparr>c_id = 2, c_name = lit ''Bob Smith'', c_email = lit ''bob@example.com''\<rparr>]\<rparr>) 1 True
       \<lparr>vd_customer = Some 2, vd_items = None\<rparr>)) = [test_order\<lparr>o_customer := 2\<rparr>]"
proof -
  have "order_item_table (snd (order_viewset_update
       (order_model_db\<lparr>customer_table := customer_table order_model_db @
          [\<lparr>c_id = 2, c_name = lit ''Bob Smith'', c_email = lit ''bob@example.com''\<rparr>]\<rparr>) 1 True
       \<lparr>vd_customer = Some 2, vd_items = None\<rparr>)) =
     [\<lparr>oi_id = 1, oi_order = 1, oi_product = 1, quantity = 3\<rparr>]"
    using update_without_items [where data = "\<lparr>vd_customer = Some 2, vd_items = None\<rparr>"
        and db = "order_model_db\<lparr>customer_table := customer_table order_model_db @
          [\<lparr>c_id = 2, c_name = lit ''Bob Smith'', c_email = lit ''bob@example.com''\<rparr>]\<rparr>"
        and pk = 1 and partial = True]
    by (simp add: order_model_db_def)
  then show ?thesis by (simp add: patched_customer)
qed

section \<open>C10: an empty query-string parameter\<close>

text \<open>
  Claim C10. For every optional filter parameter (\<^verbatim>\<open>title\<close> of the job list;
  \<^verbatim>\<open>status\<close>, \<^verbatim>\<open>applicant\<close>, \<^verbatim>\<open>job\<close> of the application list; \<^verbatim>\<open>customer\<close>, \<^verbatim>\<open>from\<close>,
  \<^verbatim>\<open>to\<close> of the order list; \<^verbatim>\<open>from\<close>, \<^verbatim>\<open>to\<close> of the three reports) a request that
  carries the parameter with an empty value has exactly the result of the request without
  the parameter, whatever the other parameters are: the same rows in the same order for the
  three lists, the same filtered queryset in \<^verbatim>\<open>sales_summary\<close>, the same \<^verbatim>\<open>order_filter\<close>
  in \<^verbatim>\<open>top_customers\<close> and \<^verbatim>\<open>top_products\<close>, and the same outcome of the three report
  views.
\<close>

theorem empty_param_ignored:
  "job_get_queryset jdb (qp(''title'' \<mapsto> [])) = job_get_queryset jdb (qp(''title'' := None)) \<and>
   application_get_queryset to_int jdb (qp(''status'' \<mapsto> [])) =
     application_get_queryset to_int jdb (qp(''status'' := None)) \<and>
   application_get_queryset to_int jdb (qp(''applicant'' \<mapsto> [])) =
     application_get_queryset to_int jdb (qp(''applicant'' := None)) \<and>
   application_get_queryset to_int jdb (qp(''job'' \<mapsto> [])) =
     application_get_queryset to_int jdb (qp(''job'' := None)) \<and>
   order_get_queryset to_int to_dt db (qp(''customer'' \<mapsto> [])) =
     order_get_queryset to_int to_dt db (qp(''customer'' := None)) \<and>
   order_get_queryset to_int to_dt db (qp(''from'' \<mapsto> [])) =
     order_get_queryset to_int to_dt db (qp(''from'' := None)) \<and>
   order_get_queryset to_int to_dt db (qp(''to'' \<mapsto> [])) =
     order_get_queryset to_int to_dt db (qp(''to'' := None)) \<and>
   summary_orders to_dt db (qp(''from'' \<mapsto> [])) = summary_orders to_dt db (qp(''from'' := None)) \<and>
   summary_orders to_dt db (qp(''to'' \<mapsto> [])) = summary_orders to_dt db (qp(''to'' := None)) \<and>
   build_order_filter (qp(''from'' \<mapsto> [])) = build_order_filter (qp(''from'' := None)) \<and>
   build_order_filter (qp(''to'' \<mapsto> [])) = build_order_filter (qp(''to'' := None)) \<and>
   sales_summary to_dt db (qp(''from'' \<mapsto> [])) = sales_summary to_dt db (qp(''from'' := None)) \<and>
   sales_summary to_dt db (qp(''to'' \<mapsto> [])) = sales_summary to_dt db (qp(''to'' := None)) \<and>
   top_customers to_dt db (qp(''from'' \<mapsto> [])) = top_customers to_dt db (qp(''from'' := None)) \<and>
   top_customers to_dt db (qp(''to'' \<mapsto> [])) = top_customers to_dt db (qp(''to'' := None)) \<and>
   top_products to_dt db (qp(''from'' \<mapsto> [])) = top_products to_dt db (qp(''from'' := None)) \<and>
   top_products to_dt db (qp(''to'' \<mapsto> [])) = top_products to_dt db (qp(''to'' := None))"
proof -
  have 1: "job_get_queryset jdb (qp(''title'' \<mapsto> [])) =
           job_get_queryset jdb (qp(''title'' := None))"
    by (simp add: job_get_queryset_def)
  have 2: "application_get_queryset to_int jdb (qp(''status'' \<mapsto> [])) =
     application_get_queryset to_int jdb (qp(''status'' := None))"
    "application_get_queryset to_int jdb (qp(''applicant'' \<mapsto> [])) =
     application_get_queryset to_int jdb (qp(''applicant'' := None))"
    "application_get_queryset to_int jdb (qp(''job'' \<mapsto> [])) =
     application_get_queryset to_int jdb (qp(''job'' := None))"
    by (simp_all add: application_get_queryset_def)
  have 3: "order_get_queryset to_int to_dt db (qp(''customer'' \<mapsto> [])) =
     order_get_queryset to_int to_dt db (qp(''customer'' := None))"
    "order_get_queryset to_int to_dt db (qp(''from'' \<mapsto> [])) =
     order_get_queryset to_int to_dt db (qp(''from'' := None))"
    "order_get_queryset to_int to_dt db (qp(''to'' \<mapsto> [])) =
     order_get_queryset to_int to_dt db (qp(''to'' := None))"
    by (simp_all add: order_get_queryset_def)
  have 4: "summary_orders to_dt db (qp(''from'' \<mapsto> [])) =
           summary_orders to_dt db (qp(''from'' := None))"
    "summary_orders to_dt db (qp(''to'' \<mapsto> [])) = summary_orders to_dt db (qp(''to'' := None))"
    by (simp_all add: summary_orders_def)
  have 5: "build_order_filter (qp(''from'' \<mapsto> [])) = build_order_filter (qp(''from'' := None))"
    "build_order_filter (qp(''to'' \<mapsto> [])) = build_order_filter (qp(''to'' := None))"
    by (simp_all add: build_order_filter_def)
  have 6: "sales_summary to_dt db (qp(''from'' \<mapsto> [])) =
           sales_summary to_dt db (qp(''from'' := None))"
    "sales_summary to_dt db (qp(''to'' \<mapsto> [])) = sales_summary to_dt db (qp(''to'' := None))"
    by (simp_all add: sales_summary_def 4 bind_err_def)
  have 7: "top_customers to_dt db (qp(''from'' \<mapsto> [])) =
           top_customers to_dt db (qp(''from'' := None))"
    "top_customers to_dt db (qp(''to'' \<mapsto> [])) = top_customers to_dt db (qp(''to'' := None))"
    by (simp_all add: top_customers_def 5 annotate_customers_def resolve_output_field_def
          bind_err_def Let_def)
  have 8: "top_products to_dt db (qp(''from'' \<mapsto> [])) =
           top_products to_dt db (qp(''from'' := None))"
    "top_products to_dt db (qp(''to'' \<mapsto> [])) = top_products to_dt db (qp(''to'' := None))"
    by (simp_all add: top_products_def 5 annotate_products_def resolve_output_field_def
          bind_err_def Let_def)
  from 1 2 3 4 5 6 7 8 show ?thesis by blast
qed

theorem empty_param_ignored_witness:
  "job_get_queryset applied_db [''title'' \<mapsto> []] = Inr [django_job] \<and>
   application_get_queryset test_int applied_db [''status'' \<mapsto> []] = Inr [jane_application] \<and>
   order_get_queryset test_int test_datetime analytics_db [''from'' \<mapsto> []] =
     Inr [bob_order, alice_order] \<and>
   order_get_queryset test_int test_datetime analytics_db
     [''to'' \<mapsto> lit ''2024-01-10'', ''customer'' \<mapsto> []] = Inr [alice_order]"
proof -
  have e: "job_get_queryset applied_db Map.empty = Inr [django_job]"
    "application_get_queryset test_int applied_db Map.empty = Inr [jane_application]"
    "order_get_queryset test_int test_datetime analytics_db Map.empty =
       Inr [bob_order, alice_order]"
    "order_get_queryset test_int test_datetime analytics_db [''to'' \<mapsto> lit ''2024-01-10''] =
       Inr [alice_order]"
    by (simp_all add: job_get_queryset_def application_get_queryset_def order_get_queryset_def
          orders_all_analytics order_by_desc_def applied_db_def bind_err_def filter_param_def
          test_datetime_def alice_order_def bob_order_def)
  have u: "Map.empty(''title'' := None) = (Map.empty :: query_params)"
    "Map.empty(''status'' := None) = (Map.empty :: query_params)"
    "Map.empty(''from'' := None) = (Map.empty :: query_params)"
    "[''to'' \<mapsto> lit ''2024-01-10''](''customer'' := None) = [''to'' \<mapsto> lit ''2024-01-10'']"
    by (simp_all add: fun_upd_twist)
  have 1: "job_get_queryset applied_db [''title'' \<mapsto> []] = Inr [django_job]"
    using empty_param_ignored [where qp = Map.empty and jdb = applied_db]
    by (simp only: u e)
  have 2: "application_get_queryset test_int applied_db [''status'' \<mapsto> []] =
             Inr [jane_application]"
    using empty_param_ignored [where qp = Map.empty and jdb = applied_db and to_int = test_int]
    by (simp only: u e)
  have 3: "order_get_queryset test_int test_datetime analytics_db [''from'' \<mapsto> []] =
             Inr [bob_order, alice_order]"
    using empty_param_ignored [where qp = Map.empty and db = analytics_db and to_int = test_int
        and to_dt = test_datetime]
    by (simp only: u e)
  have 4: "order_get_queryset test_int test_datetime analytics_db
             [''to'' \<mapsto> lit ''2024-01-10'', ''customer'' \<mapsto> []] = Inr [alice_order]"
    using empty_param_ignored [where qp = "[''to'' \<mapsto> lit ''2024-01-10'']"
        and db = analytics_db and to_int = test_int and to_dt = test_datetime]
    by (simp only: u e)
  from 1 2 3 4 show ?thesis by blast
qed

end
